theory Spec2Isabelle
  imports Main
begin

section \<open>Data model of the profile orchestrator (profile.cpp)\<close>

text \<open>
  \<open>QString\<close> and \<open>QByteArray\<close> are sequences of characters and of bytes; both are
  modelled as \<open>char list\<close>. A \<open>ToxPk\<close> is the byte array of a public key.
\<close>

type_synonym QString = string
type_synonym QByteArray = string
type_synonym ToxPk = QByteArray

text \<open>\<open>ToxEncrypt\<close>: opaque key material derived from a password.\<close>

datatype ToxEncrypt = Key QByteArray

datatype LoadToxDataError =
    Load_OK
  | FILE_NOT_FOUND
  | COULD_NOT_READ_FILE
  | FILE_IS_EMPTY
  | ENCRYPTED_NO_PASSWORD
  | COULD_NOT_DERIVE_KEY
  | DECRYPTION_FAILED
  | DECRYPT_UNENCRYPTED_FILE

datatype CreateToxDataError =
    Create_OK
  | Create_COULD_NOT_DERIVE_KEY
  | PROFILE_LOCKED
  | ALREADY_EXISTS
  | LOCK_FAILED

datatype ToxCoreErrors = BAD_PROXY | ERROR_ALLOC | FAILED_TO_START | INVALID_SAVE

text \<open>The signals of \<open>Profile\<close> that \<open>initCore\<close> emits.\<close>

datatype Signal = failedToStart | badProxy

text \<open>
  The protocol core (\<open>Core\<close>, an external collaborator), reduced to what the profile
  reads from it and writes to it.
\<close>

record Core =
  selfPublicKey :: ToxPk
  friendList :: "nat list"
  friendPublicKey :: "nat \<Rightarrow> ToxPk"
  toxSaveData :: QByteArray
  statusMessage :: QString
  username :: QString
  avStarted :: bool

text \<open>\<open>RawDatabase\<close> (external): the path of the database file and whether it is open.\<close>

record RawDatabase =
  dbPath :: QString
  dbIsOpen :: bool

text \<open>
  Every effect on something outside the \<open>Profile\<close> object is recorded, in the order the
  calls are made: lock acquisition and release, changes of files, signals, message boxes,
  the log line of a classified load or create error, the answer given to an avatar offer.
\<close>

datatype Event =
    LockAcquired QString
  | LockReleased
  | FileRemoved QString
  | FileRenamed QString QString
  | FileCommitted QString
  | Emitted Signal
  | ShowError QString
  | LoadErrorLogged LoadToxDataError
  | CreateErrorLogged CreateToxDataError
  | AvatarOfferHandled nat nat bool nat
  | SettingsUpdateProfileData QString bool
  | SettingsCreatePersonal QString

text \<open>
  The state outside the \<open>Profile\<close> object: the files of the settings directory, the name
  under which this process holds the profile lock (\<open>ProfileLocker::curLockName\<close>), the
  static list \<open>Profile::profiles\<close>, two settings, and the recorded effects.
\<close>

record World =
  files :: "QString \<rightharpoonup> QByteArray"
  curLockName :: "QString option"
  profiles :: "QString list"
  currentProfile :: QString
  autorun :: bool
  effects :: "Event list"

text \<open>
  Everything \<open>profile.cpp\<close> calls whose code is not among the sources at hand is a
  parameter: the encryption wrapper \<open>ToxEncrypt\<close>, the factories of the protocol core and
  of its AV extension, the hash functions of toxcore and libsodium, \<open>ToxPk::toString\<close>,
  and the outcome of file operations, of lock acquisition and of database operations.
\<close>

record Env =
  settingsDirPath :: QString
  isEncrypted :: "QByteArray \<Rightarrow> bool"
  makeToxEncryptFor :: "QString \<Rightarrow> QByteArray \<Rightarrow> ToxEncrypt option"
  makeToxEncrypt :: "QString \<Rightarrow> ToxEncrypt option"
  encrypt :: "ToxEncrypt \<Rightarrow> QByteArray \<Rightarrow> QByteArray"
  decrypt :: "ToxEncrypt \<Rightarrow> QByteArray \<Rightarrow> QByteArray"
  makeToxCore :: "QByteArray \<Rightarrow> ToxCoreErrors + Core"
  makeCoreAV :: "Core \<Rightarrow> bool"
  tox_hash :: "QByteArray \<Rightarrow> QByteArray"
  crypto_generichash :: "nat \<Rightarrow> QByteArray \<Rightarrow> QByteArray \<Rightarrow> QByteArray"
  pkToString :: "ToxPk \<Rightarrow> QString"
  lockAvailable :: "QString option \<Rightarrow> QString \<Rightarrow> bool"
  canOpenRead :: "QString \<Rightarrow> bool"
  canOpenWrite :: "QString \<Rightarrow> bool"
  flushOk :: "QString \<Rightarrow> bool"
  commitOk :: "QString \<Rightarrow> bool"
  canRemove :: "QString \<Rightarrow> bool"
  canRename :: "QString \<Rightarrow> QString \<Rightarrow> bool"
  dbOpens :: "QString \<Rightarrow> QString \<Rightarrow> QByteArray \<Rightarrow> bool"
  dbSetPasswordOk :: "RawDatabase \<Rightarrow> QString \<Rightarrow> bool"

text \<open>The members of \<open>Profile\<close>. A null \<open>unique_ptr\<close> is \<open>None\<close> (or \<open>False\<close>).\<close>

record Profile =
  name :: QString
  passkey :: "ToxEncrypt option"
  isRemoved :: bool
  encrypted :: bool
  core :: "Core option"
  coreAv :: bool
  avatarBroadcaster :: bool
  database :: "RawDatabase option"
  history :: bool

text \<open>
  A call either returns a value, or the process stops: a failed \<open>assert\<close>, or a member
  access through a null pointer. Both carry the state of the world at that moment.
\<close>

datatype 'a Outcome = Crash World | Return 'a World

text \<open>The state of the world in which a call ends, whether it returns or not.\<close>

definition worldAfter :: "'a Outcome \<Rightarrow> World" where
  "worldAfter out = (case out of Crash w \<Rightarrow> w | Return r w \<Rightarrow> w)"

subsection \<open>ProfileLocker (external)\<close>

text \<open>
  Modelled from the spec: \<open>ProfileLocker\<close> is not part of the sources. \<open>hasLock\<close> is true
  if this process holds a profile lock; \<open>lock\<close> succeeds and records the name as the
  current holder, or fails and changes nothing; \<open>unlock\<close> releases the held lock and is a
  no-op if nothing is held; \<open>assertLock\<close> fails loudly if no lock is held. When \<open>lock\<close>
  succeeds is the parameter \<open>lockAvailable\<close>, given the current holder and the name.
\<close>

definition ProfileLocker_hasLock :: "World \<Rightarrow> bool" where
  "ProfileLocker_hasLock w = (curLockName w \<noteq> None)"

definition ProfileLocker_lock :: "Env \<Rightarrow> QString \<Rightarrow> World \<Rightarrow> bool \<times> World" where
  "ProfileLocker_lock E nm w =
     (if lockAvailable E (curLockName w) nm
      then (True, w\<lparr>curLockName := Some nm, effects := effects w @ [LockAcquired nm]\<rparr>)
      else (False, w))"

definition ProfileLocker_unlock :: "World \<Rightarrow> World" where
  "ProfileLocker_unlock w =
     (case curLockName w of
        None \<Rightarrow> w
      | Some held \<Rightarrow> w\<lparr>curLockName := None, effects := effects w @ [LockReleased]\<rparr>)"

definition ProfileLocker_assertLock :: "World \<Rightarrow> bool" where
  "ProfileLocker_assertLock w = (curLockName w \<noteq> None)"

definition ProfileLocker_getCurLockName :: "World \<Rightarrow> QString" where
  "ProfileLocker_getCurLockName w = (case curLockName w of None \<Rightarrow> [] | Some held \<Rightarrow> held)"

subsection \<open>QFile and QSaveFile (Qt)\<close>

definition QFile_exists :: "World \<Rightarrow> QString \<Rightarrow> bool" where
  "QFile_exists w path = (files w path \<noteq> None)"

definition QFile_openReadOnly :: "Env \<Rightarrow> World \<Rightarrow> QString \<Rightarrow> bool" where
  "QFile_openReadOnly E w path = (QFile_exists w path \<and> canOpenRead E path)"

definition QFile_readAll :: "World \<Rightarrow> QString \<Rightarrow> QByteArray" where
  "QFile_readAll w path = (case files w path of None \<Rightarrow> [] | Some content \<Rightarrow> content)"

definition QFile_size :: "World \<Rightarrow> QString \<Rightarrow> nat" where
  "QFile_size w path = length (QFile_readAll w path)"

definition QFile_remove :: "Env \<Rightarrow> QString \<Rightarrow> World \<Rightarrow> bool \<times> World" where
  "QFile_remove E path w =
     (if QFile_exists w path \<and> canRemove E path
      then (True, w\<lparr>files := (files w)(path := None), effects := effects w @ [FileRemoved path]\<rparr>)
      else (False, w))"

definition QFile_rename :: "Env \<Rightarrow> QString \<Rightarrow> QString \<Rightarrow> World \<Rightarrow> bool \<times> World" where
  "QFile_rename E old new w =
     (case files w old of
        None \<Rightarrow> (False, w)
      | Some content \<Rightarrow>
          if QFile_exists w new \<or> \<not> canRename E old new then (False, w)
          else (True, w\<lparr>files := (files w)(old := None, new \<mapsto> content),
                         effects := effects w @ [FileRenamed old new]\<rparr>))"

text \<open>
  \<open>QSaveFile\<close> writes to a staging file; \<open>commit\<close> moves the staged content to the final
  path, \<open>cancelWriting\<close> and the destructor discard it. Until \<open>commit\<close> the file at the
  final path is not touched.
\<close>

definition QSaveFile_open :: "Env \<Rightarrow> QString \<Rightarrow> bool" where
  "QSaveFile_open E path = canOpenWrite E path"

definition QSaveFile_flush :: "Env \<Rightarrow> QString \<Rightarrow> bool" where
  "QSaveFile_flush E path = flushOk E path"

definition QSaveFile_commit :: "Env \<Rightarrow> QString \<Rightarrow> QByteArray \<Rightarrow> World \<Rightarrow> World" where
  "QSaveFile_commit E path staged w =
     (if commitOk E path
      then w\<lparr>files := (files w)(path \<mapsto> staged), effects := effects w @ [FileCommitted path]\<rparr>
      else w)"

section \<open>The functions of profile.cpp\<close>

subsection \<open>saveToxSave, onSaveToxSave\<close>

text \<open>
  The tail of \<open>saveToxSave\<close>: \<open>saveFile.write(data)\<close>, then \<open>commit\<close> if \<open>flush\<close>
  succeeded, \<open>cancelWriting\<close> and \<open>false\<close> otherwise.
\<close>

definition saveToxSave_write :: "Env \<Rightarrow> QString \<Rightarrow> QByteArray \<Rightarrow> World \<Rightarrow> bool Outcome" where
  "saveToxSave_write E path data w =
     (if QSaveFile_flush E path
      then Return True (QSaveFile_commit E path data w)
      else Return False w)"

definition saveToxSave :: "Env \<Rightarrow> QByteArray \<Rightarrow> Profile \<Rightarrow> World \<Rightarrow> bool Outcome" where
  "saveToxSave E data p w =
     (if isRemoved p then Crash w
      else if \<not> ProfileLocker_assertLock w then Crash w
      else if ProfileLocker_getCurLockName w \<noteq> name p then Crash w
      else
        let path = settingsDirPath E @ name p @ ''.tox'' in
        if \<not> QSaveFile_open E path then Return False w
        else if encrypted p then
          (case passkey p of
             None \<Rightarrow> Crash w
           | Some k \<Rightarrow>
               let data' = encrypt E k data in
               if data' = [] then Return False w
               else saveToxSave_write E path data' w)
        else saveToxSave_write E path data w)"

definition onSaveToxSave :: "Env \<Rightarrow> Profile \<Rightarrow> World \<Rightarrow> unit Outcome" where
  "onSaveToxSave E p w =
     (case core p of
        None \<Rightarrow> Crash w
      | Some c \<Rightarrow>
          let data = toxSaveData c in
          if data = [] then Crash w
          else (case saveToxSave E data p w of
                  Crash w' \<Rightarrow> Crash w'
                | Return saved w' \<Rightarrow> Return () w'))"

subsection \<open>loadToxData, createToxData and their log functions\<close>

text \<open>
  \<open>loadToxData\<close> returns the key, and through its reference parameters the data and the
  error. Every \<open>return nullptr\<close> of the source is a branch.
\<close>

definition loadToxData ::
  "Env \<Rightarrow> QString \<Rightarrow> QString \<Rightarrow> QByteArray \<Rightarrow> World
     \<Rightarrow> ToxEncrypt option \<times> QByteArray \<times> LoadToxDataError" where
  "loadToxData E password filePath data0 w =
     (if \<not> QFile_exists w filePath then (None, data0, FILE_NOT_FOUND)
      else if \<not> QFile_openReadOnly E w filePath then (None, data0, COULD_NOT_READ_FILE)
      else if QFile_size w filePath \<le> 0 then (None, data0, FILE_IS_EMPTY)
      else
        let data = QFile_readAll w filePath in
        if isEncrypted E data then
          (if password = [] then (None, data, ENCRYPTED_NO_PASSWORD)
           else
             (case makeToxEncryptFor E password data of
                None \<Rightarrow> (None, data, COULD_NOT_DERIVE_KEY)
              | Some tmpKey \<Rightarrow>
                  let data' = decrypt E tmpKey data in
                  if data' = [] then (None, data', DECRYPTION_FAILED)
                  else (Some tmpKey, data', Load_OK)))
        else (None, data, Load_OK))"

definition createToxData ::
  "Env \<Rightarrow> QString \<Rightarrow> QString \<Rightarrow> QString \<Rightarrow> World
     \<Rightarrow> ToxEncrypt option \<times> CreateToxDataError \<times> World" where
  "createToxData E nm password filePath w =
     (let newKey = (if password \<noteq> [] then makeToxEncrypt E password else None) in
      if password \<noteq> [] \<and> newKey = None then (None, Create_COULD_NOT_DERIVE_KEY, w)
      else if ProfileLocker_hasLock w then (None, PROFILE_LOCKED, w)
      else if QFile_exists w filePath then (None, ALREADY_EXISTS, w)
      else
        (case ProfileLocker_lock E nm w of
           (False, w1) \<Rightarrow> (None, LOCK_FAILED, w1)
         | (True, w1) \<Rightarrow> (newKey, Create_OK, w1)))"

definition logLoadToxDataError :: "LoadToxDataError \<Rightarrow> World \<Rightarrow> bool \<times> World" where
  "logLoadToxDataError error w =
     (case error of
        Load_OK \<Rightarrow> (False, w)
      | FILE_NOT_FOUND \<Rightarrow> (True, w\<lparr>effects := effects w @ [LoadErrorLogged FILE_NOT_FOUND]\<rparr>)
      | COULD_NOT_READ_FILE \<Rightarrow>
          (True, w\<lparr>effects := effects w @ [LoadErrorLogged COULD_NOT_READ_FILE]\<rparr>)
      | FILE_IS_EMPTY \<Rightarrow> (True, w\<lparr>effects := effects w @ [LoadErrorLogged FILE_IS_EMPTY]\<rparr>)
      | ENCRYPTED_NO_PASSWORD \<Rightarrow>
          (True, w\<lparr>effects := effects w @ [LoadErrorLogged ENCRYPTED_NO_PASSWORD]\<rparr>)
      | COULD_NOT_DERIVE_KEY \<Rightarrow>
          (True, w\<lparr>effects := effects w @ [LoadErrorLogged COULD_NOT_DERIVE_KEY]\<rparr>)
      | DECRYPTION_FAILED \<Rightarrow>
          (True, w\<lparr>effects := effects w @ [LoadErrorLogged DECRYPTION_FAILED]\<rparr>)
      | DECRYPT_UNENCRYPTED_FILE \<Rightarrow>
          (True, w\<lparr>effects := effects w @ [LoadErrorLogged DECRYPT_UNENCRYPTED_FILE]\<rparr>))"

definition logCreateToxDataError :: "CreateToxDataError \<Rightarrow> World \<Rightarrow> bool \<times> World" where
  "logCreateToxDataError error w =
     (case error of
        Create_OK \<Rightarrow> (False, w)
      | Create_COULD_NOT_DERIVE_KEY \<Rightarrow>
          (True, w\<lparr>effects := effects w @ [CreateErrorLogged Create_COULD_NOT_DERIVE_KEY]\<rparr>)
      | PROFILE_LOCKED \<Rightarrow> (True, w\<lparr>effects := effects w @ [CreateErrorLogged PROFILE_LOCKED]\<rparr>)
      | ALREADY_EXISTS \<Rightarrow> (True, w\<lparr>effects := effects w @ [CreateErrorLogged ALREADY_EXISTS]\<rparr>)
      | LOCK_FAILED \<Rightarrow> (True, w\<lparr>effects := effects w @ [CreateErrorLogged LOCK_FAILED]\<rparr>))"

subsection \<open>The constructor, initCore, loadDatabase\<close>

definition Profile_new :: "QString \<Rightarrow> ToxEncrypt option \<Rightarrow> Profile" where
  "Profile_new name0 passkey0 =
     \<lparr>name = name0, passkey = passkey0, isRemoved = False, encrypted = (passkey0 \<noteq> None),
      core = None, coreAv = False, avatarBroadcaster = False, database = None,
      history = False\<rparr>"

definition emit_signal :: "Signal \<Rightarrow> World \<Rightarrow> World" where
  "emit_signal s w = w\<lparr>effects := effects w @ [Emitted s]\<rparr>"

text \<open>
  \<open>initCore\<close> returns nothing: a failure is a signal and an early \<open>return\<close>, with \<open>core\<close>
  (or \<open>coreAv\<close>) left null. The two checks of the save data against \<open>isNewProfile\<close> emit
  \<open>failedToStart\<close> and go on. The \<open>connect\<close> calls and the bootstrap node updater have no
  effect that a claim reads and are left out.
\<close>

definition initCore :: "Env \<Rightarrow> QByteArray \<Rightarrow> bool \<Rightarrow> Profile \<Rightarrow> World \<Rightarrow> Profile Outcome" where
  "initCore E toxSave isNewProfile p w =
     (let w1 = (if toxSave = [] \<and> \<not> isNewProfile then emit_signal failedToStart w else w);
          w2 = (if toxSave \<noteq> [] \<and> isNewProfile then emit_signal failedToStart w1 else w1)
      in
      case makeToxCore E toxSave of
        Inl err \<Rightarrow>
          Return (p\<lparr>core := None\<rparr>)
            (case err of
               BAD_PROXY \<Rightarrow> emit_signal badProxy w2
             | ERROR_ALLOC \<Rightarrow> emit_signal failedToStart w2
             | FAILED_TO_START \<Rightarrow> emit_signal failedToStart w2
             | INVALID_SAVE \<Rightarrow> emit_signal failedToStart w2)
      | Inr c \<Rightarrow>
          if \<not> makeCoreAV E c
          then Return (p\<lparr>core := Some c, coreAv := False\<rparr>) (emit_signal failedToStart w2)
          else
            let c1 = c\<lparr>avStarted := True\<rparr> in
            if isNewProfile then
              (let c2 = c1\<lparr>statusMessage := ''Toxing on qTox'', username := name p\<rparr>;
                   p2 = p\<lparr>core := Some c2, coreAv := True\<rparr>
               in
               case onSaveToxSave E p2 w2 of
                 Crash w' \<Rightarrow> Crash w'
               | Return u w3 \<Rightarrow> Return (p2\<lparr>avatarBroadcaster := True\<rparr>) w3)
            else Return (p\<lparr>core := Some c1, coreAv := True, avatarBroadcaster := True\<rparr>) w2)"

definition getDbPath :: "Env \<Rightarrow> QString \<Rightarrow> QString" where
  "getDbPath E profileName = settingsDirPath E @ profileName @ ''.db''"

text \<open>\<open>TOX_PASS_SALT_LENGTH\<close> of toxencryptsave.h, and the text of the message box.\<close>

definition TOX_PASS_SALT_LENGTH :: nat where
  "TOX_PASS_SALT_LENGTH = 32"

definition chatLogsDisabled :: QString where
  "chatLogsDisabled =
     ''qTox couldn'' @ [CHR 0x27] @ ''t open your chat logs, they will be disabled.''"

definition showError :: "QString \<Rightarrow> World \<Rightarrow> World" where
  "showError msg w = w\<lparr>effects := effects w @ [ShowError msg]\<rparr>"

text \<open>
  The constructor of \<open>RawDatabase\<close> (external): whether the database is open afterwards is
  the parameter \<open>dbOpens\<close> of the path, the password and the salt.
\<close>

definition RawDatabase_new :: "Env \<Rightarrow> QString \<Rightarrow> QString \<Rightarrow> QByteArray \<Rightarrow> RawDatabase" where
  "RawDatabase_new E path password salt =
     \<lparr>dbPath = path, dbIsOpen = dbOpens E path password salt\<rparr>"

definition loadDatabase :: "Env \<Rightarrow> QString \<Rightarrow> Profile \<Rightarrow> World \<Rightarrow> Profile Outcome" where
  "loadDatabase E password p w =
     (case core p of
        None \<Rightarrow> Crash w
      | Some c \<Rightarrow>
          if isRemoved p then Return p w
          else
            let salt = selfPublicKey c;
                w1 = (if length salt \<noteq> TOX_PASS_SALT_LENGTH then showError chatLogsDisabled w
                      else w);
                db = RawDatabase_new E (getDbPath E (name p)) password salt
            in
            if dbIsOpen db then Return (p\<lparr>database := Some db, history := True\<rparr>) w1
            else Return (p\<lparr>database := Some db\<rparr>) (showError chatLogsDisabled w1))"

subsection \<open>loadProfile, createProfile\<close>

text \<open>
  A returned \<open>nullptr\<close> is \<open>Return None\<close>. \<open>Settings::updateProfileData\<close> and
  \<open>Settings::createPersonal\<close> (external) are recorded as effects.
\<close>

definition settings_updateProfileData :: "QString \<Rightarrow> bool \<Rightarrow> World \<Rightarrow> World" where
  "settings_updateProfileData nm isNewProfile w =
     w\<lparr>effects := effects w @ [SettingsUpdateProfileData nm isNewProfile]\<rparr>"

definition Settings_createPersonal :: "QString \<Rightarrow> World \<Rightarrow> World" where
  "Settings_createPersonal nm w = w\<lparr>effects := effects w @ [SettingsCreatePersonal nm]\<rparr>"

definition loadProfile :: "Env \<Rightarrow> QString \<Rightarrow> QString \<Rightarrow> World \<Rightarrow> Profile option Outcome" where
  "loadProfile E nm password w =
     (if ProfileLocker_hasLock w then Return None w
      else
        (case ProfileLocker_lock E nm w of
           (False, w1) \<Rightarrow> Return None w1
         | (True, w1) \<Rightarrow>
             let path = settingsDirPath E @ nm @ ''.tox'' in
             (case loadToxData E password path [] w1 of
                (tmpKey, toxSave, error) \<Rightarrow>
                  (case logLoadToxDataError error w1 of
                     (True, w2) \<Rightarrow> Return None (ProfileLocker_unlock w2)
                   | (False, w2) \<Rightarrow>
                       let p = Profile_new nm tmpKey;
                           w3 = settings_updateProfileData nm False w2
                       in
                       (case initCore E toxSave False p w3 of
                          Crash w' \<Rightarrow> Crash w'
                        | Return p1 w4 \<Rightarrow>
                            (case loadDatabase E password p1 w4 of
                               Crash w' \<Rightarrow> Crash w'
                             | Return p2 w5 \<Rightarrow> Return (Some p2) w5))))))"

definition createProfile :: "Env \<Rightarrow> QString \<Rightarrow> QString \<Rightarrow> World \<Rightarrow> Profile option Outcome" where
  "createProfile E nm password w =
     (let path = settingsDirPath E @ nm @ ''.tox'' in
      case createToxData E nm password path w of
        (tmpKey, error, w1) \<Rightarrow>
          (case logCreateToxDataError error w1 of
             (True, w2) \<Rightarrow> Return None w2
           | (False, w2) \<Rightarrow>
               let w3 = Settings_createPersonal nm w2;
                   p = Profile_new nm tmpKey;
                   w4 = settings_updateProfileData nm True w3
               in
               (case initCore E [] True p w4 of
                  Crash w' \<Rightarrow> Crash w'
                | Return p1 w5 \<Rightarrow>
                    (case loadDatabase E password p1 w5 of
                       Crash w' \<Rightarrow> Crash w'
                     | Return p2 w6 \<Rightarrow> Return (Some p2) w6))))"

subsection \<open>The avatar cache\<close>

text \<open>
  The constants of toxcore and libsodium that \<open>avatarPath\<close> uses, and
  \<open>QByteArray::toHex\<close> followed by \<open>toUpper\<close>.
\<close>

definition tox_public_key_size :: nat where
  "tox_public_key_size = 32"

definition crypto_generichash_BYTES_MIN :: nat where
  "crypto_generichash_BYTES_MIN = 16"

definition crypto_generichash_BYTES_MAX :: nat where
  "crypto_generichash_BYTES_MAX = 64"

definition crypto_generichash_KEYBYTES_MIN :: nat where
  "crypto_generichash_KEYBYTES_MIN = 16"

definition crypto_generichash_KEYBYTES_MAX :: nat where
  "crypto_generichash_KEYBYTES_MAX = 64"

definition hexDigit :: "nat \<Rightarrow> char" where
  "hexDigit n = ''0123456789ABCDEF'' ! (n mod 16)"

definition toHexUpper :: "QByteArray \<Rightarrow> QString" where
  "toHexUpper bytes =
     concat (map (\<lambda>c. [hexDigit ((of_char c :: nat) div 16), hexDigit (of_char c)]) bytes)"

text \<open>
  \<open>avatarPath\<close>: \<open>None\<close> is the stop of the process, at \<open>core->getSelfPublicKey()\<close> with
  a null \<open>core\<close> or at one of the two \<open>Q_ASSERT_X\<close>.
\<close>

definition avatarPath :: "Env \<Rightarrow> ToxPk \<Rightarrow> bool \<Rightarrow> Profile \<Rightarrow> QString option" where
  "avatarPath E owner forceUnencrypted p =
     (let ownerStr = pkToString E owner in
      if \<not> encrypted p \<or> forceUnencrypted
      then Some (settingsDirPath E @ ''avatars/'' @ ownerStr @ ''.png'')
      else
        (case core p of
           None \<Rightarrow> None
         | Some c \<Rightarrow>
             let idData = ownerStr;
                 pubkeyData = selfPublicKey c;
                 hashSize = tox_public_key_size
             in
             if \<not> (hashSize \<ge> crypto_generichash_BYTES_MIN
                    \<and> hashSize \<le> crypto_generichash_BYTES_MAX) then None
             else if \<not> (hashSize \<ge> crypto_generichash_KEYBYTES_MIN
                         \<and> hashSize \<le> crypto_generichash_KEYBYTES_MAX) then None
             else
               let hash = crypto_generichash E hashSize idData pubkeyData in
               Some (settingsDirPath E @ ''avatars/'' @ toHexUpper hash @ ''.png'')))"

text \<open>
  \<open>loadAvatarData\<close>: \<open>None\<close> is the stop of the process (in \<open>avatarPath\<close>, or at
  \<open>passkey->decrypt\<close> with a null \<open>passkey\<close>); a file that cannot be opened gives the
  empty array.
\<close>

definition loadAvatarData :: "Env \<Rightarrow> ToxPk \<Rightarrow> Profile \<Rightarrow> World \<Rightarrow> QByteArray option" where
  "loadAvatarData E owner p w =
     (case avatarPath E owner False p of
        None \<Rightarrow> None
      | Some path0 \<Rightarrow>
          let fallback = (encrypted p \<and> \<not> QFile_exists w path0);
              avatarEncrypted = (if fallback then False else encrypted p)
          in
          (case (if fallback then avatarPath E owner True p else Some path0) of
             None \<Rightarrow> None
           | Some path \<Rightarrow>
               if \<not> QFile_openReadOnly E w path then Some []
               else
                 let pic = QFile_readAll w path in
                 if avatarEncrypted \<and> pic \<noteq> [] then
                   (case passkey p of
                      None \<Rightarrow> None
                    | Some k \<Rightarrow> Some (decrypt E k pic))
                 else Some pic))"

text \<open>
  \<open>saveAvatar\<close>: the \<open>QSaveFile\<close> is committed without a check of \<open>flush\<close>; the
  directory \<open>avatars\<close> is not modelled.
\<close>

definition saveAvatar :: "Env \<Rightarrow> ToxPk \<Rightarrow> QByteArray \<Rightarrow> Profile \<Rightarrow> World \<Rightarrow> unit Outcome" where
  "saveAvatar E owner avatar p w =
     (let needEncrypt = (encrypted p \<and> avatar \<noteq> []) in
      case (if needEncrypt
            then (case passkey p of None \<Rightarrow> None | Some k \<Rightarrow> Some (encrypt E k avatar))
            else Some avatar) of
        None \<Rightarrow> Crash w
      | Some pic \<Rightarrow>
          (case avatarPath E owner False p of
             None \<Rightarrow> Crash w
           | Some path \<Rightarrow>
               if pic = [] then Return () (snd (QFile_remove E path w))
               else if \<not> QSaveFile_open E path then Return () w
               else Return () (QSaveFile_commit E path pic w)))"

definition getAvatarHash :: "Env \<Rightarrow> ToxPk \<Rightarrow> Profile \<Rightarrow> World \<Rightarrow> QByteArray option" where
  "getAvatarHash E owner p w =
     (case loadAvatarData E owner p w of
        None \<Rightarrow> None
      | Some pic \<Rightarrow> Some (tox_hash E pic))"

text \<open>
  \<open>onAvatarOfferReceived\<close>: the call of \<open>CoreFile::handleAvatarOffer\<close> is the effect
  \<open>AvatarOfferHandled\<close>, with the value of \<open>accept\<close>.
\<close>

definition onAvatarOfferReceived ::
  "Env \<Rightarrow> nat \<Rightarrow> nat \<Rightarrow> QByteArray \<Rightarrow> nat \<Rightarrow> Profile \<Rightarrow> World \<Rightarrow> unit Outcome" where
  "onAvatarOfferReceived E friendId fileId avatarHash filesize p w =
     (case core p of
        None \<Rightarrow> Crash w
      | Some c \<Rightarrow>
          (case getAvatarHash E (friendPublicKey c friendId) p w of
             None \<Rightarrow> Crash w
           | Some cached \<Rightarrow>
               let accept = (cached \<noteq> avatarHash) in
               Return ()
                 (w\<lparr>effects := effects w @ [AvatarOfferHandled friendId fileId accept filesize]\<rparr>)))"

subsection \<open>remove\<close>

text \<open>
  The loop over \<open>profiles\<close>: \<open>removeAt(i)\<close> followed by \<open>i--\<close> and the \<open>++i\<close> of the
  loop header looks at the same index again.
\<close>

function removeFromProfiles :: "QString \<Rightarrow> nat \<Rightarrow> QString list \<Rightarrow> QString list" where
  "removeFromProfiles nm i ps =
     (if i < length ps
      then (if ps ! i = nm
            then removeFromProfiles nm i (take i ps @ drop (Suc i) ps)
            else removeFromProfiles nm (Suc i) ps)
      else ps)"
  by pat_completeness auto
termination
  by (relation "measure (\<lambda>(nm, i, ps). length ps - i)") auto

declare removeFromProfiles.simps [simp del]

text \<open>
  Modelled from the spec: \<open>RawDatabase::remove\<close> and \<open>RawDatabase::rename\<close> are not part
  of the sources; they delete and rename the database file.
\<close>

definition RawDatabase_remove :: "Env \<Rightarrow> RawDatabase \<Rightarrow> World \<Rightarrow> bool \<times> World" where
  "RawDatabase_remove E db w = QFile_remove E (dbPath db) w"

definition RawDatabase_rename ::
  "Env \<Rightarrow> QString \<Rightarrow> RawDatabase \<Rightarrow> World \<Rightarrow> RawDatabase \<times> World" where
  "RawDatabase_rename E newName db w =
     (case QFile_rename E (dbPath db) (getDbPath E newName) w of
        (True, w1) \<Rightarrow> (db\<lparr>dbPath := getDbPath E newName\<rparr>, w1)
      | (False, w1) \<Rightarrow> (db, w1))"

text \<open>
  \<open>remove\<close> after its guard, in two parts. First: the flag, the list \<open>profiles\<close>, the
  release of the lock.
\<close>

definition remove_begin :: "Profile \<Rightarrow> World \<Rightarrow> Profile \<times> World" where
  "remove_begin p w =
     (let p1 = p\<lparr>isRemoved := True\<rparr>;
          w1 = w\<lparr>profiles := removeFromProfiles (name p1) 0 (profiles w)\<rparr>
      in (p1, ProfileLocker_unlock w1))"

text \<open>Second: the three deletions, each with its own entry in the returned list.\<close>

definition remove_files :: "Env \<Rightarrow> Profile \<Rightarrow> World \<Rightarrow> QString list \<times> Profile \<times> World" where
  "remove_files E p w =
     (let path = settingsDirPath E @ name p in
      case QFile_remove E (path @ ''.tox'') w of
        (removedMain, w1) \<Rightarrow>
          let ret1 = (if \<not> removedMain \<and> QFile_exists w1 (path @ ''.tox'')
                      then [path @ ''.tox''] else [])
          in
          (case QFile_remove E (path @ ''.ini'') w1 of
             (removedConfig, w2) \<Rightarrow>
               let ret2 = (if \<not> removedConfig \<and> QFile_exists w2 (path @ ''.ini'')
                           then ret1 @ [path @ ''.ini''] else ret1);
                   dbPath' = getDbPath E (name p)
               in
               (case database p of
                  None \<Rightarrow> (ret2, p\<lparr>history := False, database := None\<rparr>, w2)
                | Some db \<Rightarrow>
                    if \<not> dbIsOpen db then (ret2, p\<lparr>history := False, database := None\<rparr>, w2)
                    else
                      (case RawDatabase_remove E db w2 of
                         (removedDb, w3) \<Rightarrow>
                           (if \<not> removedDb \<and> QFile_exists w3 dbPath'
                            then ret2 @ [dbPath'] else ret2,
                            p\<lparr>history := False, database := None\<rparr>, w3)))))"

definition remove :: "Env \<Rightarrow> Profile \<Rightarrow> World \<Rightarrow> QString list \<times> Profile \<times> World" where
  "remove E p w =
     (if isRemoved p then ([], p, w)
      else (case remove_begin p w of (p1, w1) \<Rightarrow> remove_files E p1 w1))"

subsection \<open>rename\<close>

definition rename :: "Env \<Rightarrow> QString \<Rightarrow> Profile \<Rightarrow> World \<Rightarrow> bool \<times> Profile \<times> World" where
  "rename E newName p w =
     (let path = settingsDirPath E @ name p;
          newPath = settingsDirPath E @ newName
      in
      case ProfileLocker_lock E newName w of
        (False, w1) \<Rightarrow> (False, p, w1)
      | (True, w1) \<Rightarrow>
          let w2 = snd (QFile_rename E (path @ ''.tox'') (newPath @ ''.tox'') w1);
              w3 = snd (QFile_rename E (path @ ''.ini'') (newPath @ ''.ini'') w2)
          in
          (case (case database p of
                   None \<Rightarrow> (None, w3)
                 | Some db \<Rightarrow>
                     (case RawDatabase_rename E newName db w3 of
                        (db1, w') \<Rightarrow> (Some db1, w'))) of
             (database', w4) \<Rightarrow>
               let resetAutorun = autorun w4;
                   w5 = w4\<lparr>autorun := False\<rparr>;
                   w6 = w5\<lparr>currentProfile := newName\<rparr>;
                   w7 = (if resetAutorun then w6\<lparr>autorun := True\<rparr> else w6)
               in (True, p\<lparr>name := newName, database := database'\<rparr>, w7)))"

subsection \<open>setPassword\<close>

definition deriveKeyFailed :: QString where
  "deriveKeyFailed =
     ''Failed to derive key from password, the profile won'' @ [CHR 0x27]
       @ ''t use the new password.''"

definition dbPasswordError :: QString where
  "dbPasswordError =
     ''Couldn'' @ [CHR 0x27] @ ''t change database password, it may be corrupted or use the old ''
       @ ''password.''"

text \<open>The loop of \<open>setPassword\<close> over the friend list.\<close>

fun resaveFriendAvatars :: "Env \<Rightarrow> Core \<Rightarrow> nat list \<Rightarrow> Profile \<Rightarrow> World \<Rightarrow> unit Outcome" where
  "resaveFriendAvatars E c [] p w = Return () w"
| "resaveFriendAvatars E c (friendId # rest) p w =
     (let friendPk = friendPublicKey c friendId in
      case loadAvatarData E friendPk p w of
        None \<Rightarrow> Crash w
      | Some pic \<Rightarrow>
          (case saveAvatar E friendPk pic p w of
             Crash w' \<Rightarrow> Crash w'
           | Return u w1 \<Rightarrow> resaveFriendAvatars E c rest p w1))"

definition setPassword ::
  "Env \<Rightarrow> QString \<Rightarrow> Profile \<Rightarrow> World \<Rightarrow> (QString \<times> Profile) Outcome" where
  "setPassword E newPassword p w =
     (case (if newPassword = [] then Some (p\<lparr>encrypted := False\<rparr>)
            else (case makeToxEncrypt E newPassword of
                    None \<Rightarrow> None
                  | Some newpasskey \<Rightarrow> Some (p\<lparr>passkey := Some newpasskey, encrypted := True\<rparr>))) of
        None \<Rightarrow> Return (deriveKeyFailed, p) w
      | Some p1 \<Rightarrow>
          (case onSaveToxSave E p1 w of
             Crash w' \<Rightarrow> Crash w'
           | Return u w1 \<Rightarrow>
               let dbSuccess = (case database p1 of
                                  None \<Rightarrow> False
                                | Some db \<Rightarrow> dbSetPasswordOk E db newPassword);
                   error = (if \<not> dbSuccess then dbPasswordError else [])
               in
               (case core p1 of
                  None \<Rightarrow> Crash w1
                | Some c \<Rightarrow>
                    (case loadAvatarData E (selfPublicKey c) p1 w1 of
                       None \<Rightarrow> Crash w1
                     | Some avatar \<Rightarrow>
                         (case saveAvatar E (selfPublicKey c) avatar p1 w1 of
                            Crash w' \<Rightarrow> Crash w'
                          | Return u2 w2 \<Rightarrow>
                              (case resaveFriendAvatars E c (friendList c) p1 w2 of
                                 Crash w' \<Rightarrow> Crash w'
                               | Return u3 w3 \<Rightarrow> Return (error, p1) w3))))))"

section \<open>An example environment\<close>

text \<open>
  One instance of the parameters, on which the theorems below are run: a cipher that
  prefixes the data with \<open>E:\<close>, the key and a colon; a key derivation that rejects the
  password \<open>weak\<close>; a core factory that rejects the save data \<open>corrupt\<close>; a profile
  name \<open>busy\<close> that another instance has locked; files named \<open>readonly\<close> that cannot be
  written or removed.
\<close>

fun example_isEncrypted :: "QByteArray \<Rightarrow> bool" where
  "example_isEncrypted (a # b # rest) = (a = CHR ''E'' \<and> b = CHR '':'')"
| "example_isEncrypted other = False"

fun stripPrefix :: "string \<Rightarrow> string \<Rightarrow> string option" where
  "stripPrefix [] ys = Some ys"
| "stripPrefix (x # xs) [] = None"
| "stripPrefix (x # xs) (y # ys) = (if x = y then stripPrefix xs ys else None)"

fun example_encrypt :: "ToxEncrypt \<Rightarrow> QByteArray \<Rightarrow> QByteArray" where
  "example_encrypt (Key k) plain = ''E:'' @ k @ '':'' @ plain"

fun example_decrypt :: "ToxEncrypt \<Rightarrow> QByteArray \<Rightarrow> QByteArray" where
  "example_decrypt (Key k) cipher =
     (case stripPrefix (''E:'' @ k @ '':'') cipher of None \<Rightarrow> [] | Some plain \<Rightarrow> plain)"

definition example_makeKey :: "QString \<Rightarrow> ToxEncrypt option" where
  "example_makeKey password = (if password = ''weak'' then None else Some (Key password))"

definition exampleCore :: Core where
  "exampleCore =
     \<lparr>selfPublicKey = ''SELFSELFSELFSELFSELFSELFSELFSELF'', friendList = [7], friendPublicKey = (\<lambda>i. ''FRIEND''),
      toxSaveData = ''state'', statusMessage = [], username = [], avStarted = False\<rparr>"

definition example_makeToxCore :: "QByteArray \<Rightarrow> ToxCoreErrors + Core" where
  "example_makeToxCore save = (if save = ''corrupt'' then Inl INVALID_SAVE else Inr exampleCore)"

definition exampleEnv :: Env where
  "exampleEnv =
     \<lparr>settingsDirPath = ''/cfg/'',
      isEncrypted = example_isEncrypted,
      makeToxEncryptFor = (\<lambda>password data. example_makeKey password),
      makeToxEncrypt = example_makeKey,
      encrypt = example_encrypt,
      decrypt = example_decrypt,
      makeToxCore = example_makeToxCore,
      makeCoreAV = (\<lambda>c. True),
      tox_hash = (\<lambda>data. ''#'' @ data),
      crypto_generichash = (\<lambda>outlen input key. ''h''),
      pkToString = (\<lambda>pk. pk),
      lockAvailable = (\<lambda>held nm. nm \<noteq> ''busy''),
      canOpenRead = (\<lambda>path. True),
      canOpenWrite = (\<lambda>path. path \<noteq> ''/cfg/readonly.tox''),
      flushOk = (\<lambda>path. True),
      commitOk = (\<lambda>path. True),
      canRemove = (\<lambda>path. path \<noteq> ''/cfg/readonly.ini''),
      canRename = (\<lambda>old new. True),
      dbOpens = (\<lambda>path password salt. True),
      dbSetPasswordOk = (\<lambda>db password. True)\<rparr>"

definition exampleWorld :: World where
  "exampleWorld =
     \<lparr>files = [''/cfg/alice.tox'' \<mapsto> ''E:secret:state'', ''/cfg/bob.tox'' \<mapsto> ''plain'',
               ''/cfg/bob.ini'' \<mapsto> ''settings''],
      curLockName = None,
      profiles = [''alice'', ''bob''],
      currentProfile = ''bob'',
      autorun = False,
      effects = []\<rparr>"

text \<open>The profile \<open>bob\<close>, loaded and unencrypted, and the world in which it holds its lock.\<close>

definition exampleProfile :: Profile where
  "exampleProfile =
     \<lparr>name = ''bob'', passkey = None, isRemoved = False, encrypted = False,
      core = Some exampleCore, coreAv = True, avatarBroadcaster = True, database = None,
      history = False\<rparr>"

definition exampleLocked :: World where
  "exampleLocked = exampleWorld\<lparr>curLockName := Some ''bob''\<rparr>"

text \<open>
  A profile whose settings file cannot be removed, in a world that holds both its files.
\<close>

definition readonlyProfile :: Profile where
  "readonlyProfile = exampleProfile\<lparr>name := ''readonly''\<rparr>"

definition readonlyWorld :: World where
  "readonlyWorld =
     exampleWorld\<lparr>files := [''/cfg/readonly.tox'' \<mapsto> ''x'', ''/cfg/readonly.ini'' \<mapsto> ''y''],
                  curLockName := Some ''readonly''\<rparr>"

text \<open>
  An environment whose path hash tells owners apart (the first byte of the owner string),
  and a world in which \<open>bob\<close> holds its lock and has a plaintext avatar of its own and one
  of its friend.
\<close>

definition avatarEnv :: Env where
  "avatarEnv = exampleEnv\<lparr>crypto_generichash := (\<lambda>outlen input key. take 1 input)\<rparr>"

definition avatarWorld :: World where
  "avatarWorld =
     exampleLocked\<lparr>files := [''/cfg/bob.tox'' \<mapsto> ''plain'',
                              ''/cfg/avatars/SELFSELFSELFSELFSELFSELFSELFSELF.png'' \<mapsto> ''me'',
                              ''/cfg/avatars/FRIEND.png'' \<mapsto> ''pal'']\<rparr>"

lemmas example_defs = exampleEnv_def exampleWorld_def exampleLocked_def exampleProfile_def
  exampleCore_def example_makeKey_def example_makeToxCore_def

section \<open>Properties\<close>

subsection \<open>Writing the save file\<close>

text \<open>
  Claim C2. \<open>saveToxSave\<close> on an encrypted profile whose encryption returns an empty
  buffer abandons the write and returns \<open>false\<close> without modifying the file. For every
  save the new content is committed only after a successful flush; when opening,
  encrypting or flushing fails, the world, and with it the previously persisted save
  file, is exactly what it was, and \<open>true\<close> is not returned. A call that returns
  \<open>true\<close> has opened and flushed the staging file and committed exactly the (encrypted)
  data; a call that returns \<open>false\<close> or stops at an assertion has changed nothing.
\<close>

theorem saveToxSave_commit_or_unchanged:
  "let path = settingsDirPath E @ name p @ ''.tox'';
       out = saveToxSave E data p w;
       failure = (\<not> QSaveFile_open E path
                  \<or> (encrypted p \<and> passkey p = Some k \<and> encrypt E k data = [])
                  \<or> \<not> QSaveFile_flush E path)
   in (failure \<longrightarrow> worldAfter out = w \<and> (\<forall>w'. out \<noteq> Return True w'))
    \<and> (failure \<and> \<not> isRemoved p \<and> curLockName w = Some (name p)
          \<and> (encrypted p \<longrightarrow> passkey p = Some k)
        \<longrightarrow> out = Return False w)
    \<and> (\<forall>w'. out = Return True w' \<longrightarrow>
          QSaveFile_open E path \<and> QSaveFile_flush E path
          \<and> (if encrypted p
             then \<exists>key. passkey p = Some key \<and> encrypt E key data \<noteq> []
                   \<and> w' = QSaveFile_commit E path (encrypt E key data) w
             else w' = QSaveFile_commit E path data w))
    \<and> (\<forall>w'. out = Return False w' \<or> out = Crash w' \<longrightarrow> w' = w)"
  by (auto simp: saveToxSave_def saveToxSave_write_def Let_def worldAfter_def
      ProfileLocker_assertLock_def ProfileLocker_getCurLockName_def split: option.splits)

text \<open>
  The theorem on the example: encryption that returns nothing, a flush that fails, a file
  that cannot be opened for writing; and a save that succeeds.
\<close>

theorem saveToxSave_commit_or_unchanged_witness:
  "saveToxSave (exampleEnv\<lparr>encrypt := (\<lambda>key plain. [])\<rparr>) ''new''
     (exampleProfile\<lparr>passkey := Some (Key ''s''), encrypted := True\<rparr>) exampleLocked
     = Return False exampleLocked
   \<and> saveToxSave (exampleEnv\<lparr>flushOk := (\<lambda>path. False)\<rparr>) ''new'' exampleProfile exampleLocked
     = Return False exampleLocked
   \<and> saveToxSave exampleEnv ''new'' (exampleProfile\<lparr>name := ''readonly''\<rparr>)
       (exampleWorld\<lparr>curLockName := Some ''readonly''\<rparr>)
     = Return False (exampleWorld\<lparr>curLockName := Some ''readonly''\<rparr>)
   \<and> files (worldAfter (saveToxSave exampleEnv ''new'' exampleProfile exampleLocked))
        ''/cfg/bob.tox'' = Some ''new''"
proof -
  have a: "saveToxSave (exampleEnv\<lparr>encrypt := (\<lambda>key plain. [])\<rparr>) ''new''
     (exampleProfile\<lparr>passkey := Some (Key ''s''), encrypted := True\<rparr>) exampleLocked
     = Return False exampleLocked"
    using saveToxSave_commit_or_unchanged [where E = "exampleEnv\<lparr>encrypt := (\<lambda>key plain. [])\<rparr>"
        and p = "exampleProfile\<lparr>passkey := Some (Key ''s''), encrypted := True\<rparr>"
        and k = "Key ''s''" and data = "''new''" and w = exampleLocked]
    by (simp add: Let_def exampleEnv_def exampleProfile_def exampleLocked_def exampleWorld_def
        QSaveFile_open_def QSaveFile_flush_def)
  have b: "saveToxSave (exampleEnv\<lparr>flushOk := (\<lambda>path. False)\<rparr>) ''new'' exampleProfile exampleLocked
     = Return False exampleLocked"
    using saveToxSave_commit_or_unchanged [where E = "exampleEnv\<lparr>flushOk := (\<lambda>path. False)\<rparr>"
        and p = exampleProfile and k = "Key ''s''" and data = "''new''" and w = exampleLocked]
    by (simp add: Let_def exampleEnv_def exampleProfile_def exampleLocked_def exampleWorld_def
        QSaveFile_open_def QSaveFile_flush_def)
  have c: "saveToxSave exampleEnv ''new'' (exampleProfile\<lparr>name := ''readonly''\<rparr>)
       (exampleWorld\<lparr>curLockName := Some ''readonly''\<rparr>)
     = Return False (exampleWorld\<lparr>curLockName := Some ''readonly''\<rparr>)"
    using saveToxSave_commit_or_unchanged [where E = exampleEnv
        and p = "exampleProfile\<lparr>name := ''readonly''\<rparr>" and k = "Key ''s''" and data = "''new''"
        and w = "exampleWorld\<lparr>curLockName := Some ''readonly''\<rparr>"]
    by (simp add: Let_def exampleEnv_def exampleProfile_def exampleWorld_def
        QSaveFile_open_def QSaveFile_flush_def)
  have d: "files (worldAfter (saveToxSave exampleEnv ''new'' exampleProfile exampleLocked))
        ''/cfg/bob.tox'' = Some ''new''"
    by (simp add: saveToxSave_def saveToxSave_write_def Let_def worldAfter_def
        ProfileLocker_assertLock_def ProfileLocker_getCurLockName_def exampleEnv_def
        exampleProfile_def exampleLocked_def exampleWorld_def QSaveFile_open_def
        QSaveFile_flush_def QSaveFile_commit_def)
  from a b c d show ?thesis by blast
qed

subsection \<open>Failures of loadProfile\<close>

lemma loadToxData_world:
  "loadToxData E password path d0 (w\<lparr>curLockName := l, effects := ev\<rparr>)
     = loadToxData E password path d0 w"
  by (simp add: loadToxData_def QFile_exists_def QFile_openReadOnly_def QFile_size_def
      QFile_readAll_def)

text \<open>
  Claim C1. \<open>loadProfile\<close> with a profile lock already held (by this process, or for
  this name by another instance) returns no profile and leaves the world, files included,
  as it was. Otherwise, once the lock is acquired and
  the save file is read: an encrypted blob with an empty password is
  \<open>ENCRYPTED_NO_PASSWORD\<close>, a failed key derivation against the blob is
  \<open>COULD_NOT_DERIVE_KEY\<close>, a decryption that yields an empty buffer is
  \<open>DECRYPTION_FAILED\<close>. In each failure case of \<open>loadToxData\<close> the error is logged, the
  lock that was acquired is released, no file is changed and \<open>nullptr\<close> is returned.
\<close>

theorem loadProfile_failures:
  "let path = settingsDirPath E @ nm @ ''.tox'';
       failed = (\<lambda>e. Return None
                  (w\<lparr>curLockName := None,
                     effects := effects w @ [LockAcquired nm, LoadErrorLogged e, LockReleased]\<rparr>))
   in (ProfileLocker_hasLock w \<longrightarrow> loadProfile E nm password w = Return None w)
    \<and> (\<not> ProfileLocker_hasLock w \<and> \<not> lockAvailable E None nm
        \<longrightarrow> loadProfile E nm password w = Return None w)
    \<and> (\<not> ProfileLocker_hasLock w \<and> lockAvailable E None nm
         \<and> files w path = Some blob \<and> blob \<noteq> [] \<and> canOpenRead E path \<and> isEncrypted E blob
        \<longrightarrow> (password = []
              \<longrightarrow> loadToxData E password path [] w = (None, blob, ENCRYPTED_NO_PASSWORD)
                  \<and> loadProfile E nm password w = failed ENCRYPTED_NO_PASSWORD)
          \<and> (password \<noteq> [] \<and> makeToxEncryptFor E password blob = None
              \<longrightarrow> loadToxData E password path [] w = (None, blob, COULD_NOT_DERIVE_KEY)
                  \<and> loadProfile E nm password w = failed COULD_NOT_DERIVE_KEY)
          \<and> (password \<noteq> [] \<and> makeToxEncryptFor E password blob = Some k
               \<and> decrypt E k blob = []
              \<longrightarrow> loadToxData E password path [] w = (None, [], DECRYPTION_FAILED)
                  \<and> loadProfile E nm password w = failed DECRYPTION_FAILED))
    \<and> (\<not> ProfileLocker_hasLock w \<and> lockAvailable E None nm
         \<and> snd (snd (loadToxData E password path [] w)) = e \<and> e \<noteq> Load_OK
        \<longrightarrow> loadProfile E nm password w = failed e)"
proof -
  let ?path = "settingsDirPath E @ nm @ ''.tox''"
  let ?failed = "\<lambda>e. Return None
                  (w\<lparr>curLockName := None,
                     effects := effects w @ [LockAcquired nm, LoadErrorLogged e, LockReleased]\<rparr>)"
  have held: "loadProfile E nm password w = Return None w" if "ProfileLocker_hasLock w"
    using that by (simp add: loadProfile_def)
  have foreign: "loadProfile E nm password w = Return None w"
    if "\<not> ProfileLocker_hasLock w" and "\<not> lockAvailable E None nm"
    using that by (simp add: loadProfile_def ProfileLocker_hasLock_def ProfileLocker_lock_def)
  have general: "loadProfile E nm password w = ?failed err"
    if free: "\<not> ProfileLocker_hasLock w" and avail: "lockAvailable E None nm"
      and res: "snd (snd (loadToxData E password ?path [] w)) = err" and bad: "err \<noteq> Load_OK"
    for err
  proof -
    obtain key data where r: "loadToxData E password ?path [] w = (key, data, err)"
      using res by (cases "loadToxData E password ?path [] w") auto
    have logged: "logLoadToxDataError err v
                    = (True, v\<lparr>effects := effects v @ [LoadErrorLogged err]\<rparr>)" for v
      using bad by (cases err) (simp_all add: logLoadToxDataError_def)
    show ?thesis
      using free avail
      by (simp add: loadProfile_def ProfileLocker_hasLock_def ProfileLocker_lock_def
          loadToxData_world Let_def r logged ProfileLocker_unlock_def)
  qed
  have classify:
    "password = [] \<longrightarrow> loadToxData E password ?path [] w = (None, blob, ENCRYPTED_NO_PASSWORD)"
    "password \<noteq> [] \<and> makeToxEncryptFor E password blob = None
       \<longrightarrow> loadToxData E password ?path [] w = (None, blob, COULD_NOT_DERIVE_KEY)"
    "password \<noteq> [] \<and> makeToxEncryptFor E password blob = Some k \<and> decrypt E k blob = []
       \<longrightarrow> loadToxData E password ?path [] w = (None, [], DECRYPTION_FAILED)"
    if "files w ?path = Some blob" and "blob \<noteq> []" and "canOpenRead E ?path"
      and "isEncrypted E blob"
    using that
    by (simp_all add: loadToxData_def QFile_exists_def QFile_openReadOnly_def QFile_size_def
        QFile_readAll_def)
  show ?thesis
    unfolding Let_def
  proof (intro conjI impI)
    assume "ProfileLocker_hasLock w"
    then show "loadProfile E nm password w = Return None w" by (rule held)
  next
    assume "\<not> ProfileLocker_hasLock w \<and> \<not> lockAvailable E None nm"
    then show "loadProfile E nm password w = Return None w" using foreign by blast
  next
    assume a: "\<not> ProfileLocker_hasLock w \<and> lockAvailable E None nm
         \<and> files w ?path = Some blob \<and> blob \<noteq> [] \<and> canOpenRead E ?path \<and> isEncrypted E blob"
    then have c: "files w ?path = Some blob" "blob \<noteq> []" "canOpenRead E ?path"
      "isEncrypted E blob" by simp_all
    note cl = classify [OF c]
    {
      assume "password = []"
      then show "loadToxData E password ?path [] w = (None, blob, ENCRYPTED_NO_PASSWORD)"
        using cl(1) by blast
      then show "loadProfile E nm password w = ?failed ENCRYPTED_NO_PASSWORD"
        using a general [of ENCRYPTED_NO_PASSWORD] by simp
    }
    {
      assume "password \<noteq> [] \<and> makeToxEncryptFor E password blob = None"
      then show "loadToxData E password ?path [] w = (None, blob, COULD_NOT_DERIVE_KEY)"
        using cl(2) by blast
      then show "loadProfile E nm password w = ?failed COULD_NOT_DERIVE_KEY"
        using a general [of COULD_NOT_DERIVE_KEY] by simp
    }
    {
      assume "password \<noteq> [] \<and> makeToxEncryptFor E password blob = Some k
               \<and> decrypt E k blob = []"
      then show "loadToxData E password ?path [] w = (None, [], DECRYPTION_FAILED)"
        using cl(3) by blast
      then show "loadProfile E nm password w = ?failed DECRYPTION_FAILED"
        using a general [of DECRYPTION_FAILED] by simp
    }
  next
    assume "\<not> ProfileLocker_hasLock w \<and> lockAvailable E None nm
         \<and> snd (snd (loadToxData E password ?path [] w)) = e \<and> e \<noteq> Load_OK"
    then show "loadProfile E nm password w = ?failed e"
      using general [of e] by blast
  qed
qed

text \<open>
  The theorem on the example: the lock already held, the name \<open>busy\<close> locked by another
  instance, and the three failures.
\<close>

theorem loadProfile_failures_witness:
  "loadProfile exampleEnv ''alice'' ''secret'' exampleLocked = Return None exampleLocked
   \<and> loadProfile exampleEnv ''busy'' ''secret'' exampleWorld = Return None exampleWorld
   \<and> loadProfile exampleEnv ''alice'' [] exampleWorld
       = Return None (exampleWorld\<lparr>effects :=
           [LockAcquired ''alice'', LoadErrorLogged ENCRYPTED_NO_PASSWORD, LockReleased]\<rparr>)
   \<and> loadProfile exampleEnv ''alice'' ''weak'' exampleWorld
       = Return None (exampleWorld\<lparr>effects :=
           [LockAcquired ''alice'', LoadErrorLogged COULD_NOT_DERIVE_KEY, LockReleased]\<rparr>)
   \<and> loadProfile exampleEnv ''alice'' ''wrong'' exampleWorld
       = Return None (exampleWorld\<lparr>effects :=
           [LockAcquired ''alice'', LoadErrorLogged DECRYPTION_FAILED, LockReleased]\<rparr>)"
proof -
  have held: "ProfileLocker_hasLock exampleLocked"
    by (simp add: ProfileLocker_hasLock_def example_defs)
  have free: "\<not> ProfileLocker_hasLock exampleWorld"
    by (simp add: ProfileLocker_hasLock_def example_defs)
  have a: "loadProfile exampleEnv ''alice'' ''secret'' exampleLocked = Return None exampleLocked"
    using loadProfile_failures [where E = exampleEnv and nm = "''alice''" and w = exampleLocked
        and password = "''secret''"] held
    by (simp add: Let_def)
  have b: "loadProfile exampleEnv ''alice'' [] exampleWorld
       = Return None (exampleWorld\<lparr>effects :=
           [LockAcquired ''alice'', LoadErrorLogged ENCRYPTED_NO_PASSWORD, LockReleased]\<rparr>)"
    using loadProfile_failures [where E = exampleEnv and nm = "''alice''" and w = exampleWorld
        and password = "[]" and blob = "''E:secret:state''"] free
    by (simp add: Let_def example_defs)
  have c: "loadProfile exampleEnv ''alice'' ''weak'' exampleWorld
       = Return None (exampleWorld\<lparr>effects :=
           [LockAcquired ''alice'', LoadErrorLogged COULD_NOT_DERIVE_KEY, LockReleased]\<rparr>)"
    using loadProfile_failures [where E = exampleEnv and nm = "''alice''" and w = exampleWorld
        and password = "''weak''" and blob = "''E:secret:state''"] free
    by (simp add: Let_def example_defs)
  have d: "loadProfile exampleEnv ''alice'' ''wrong'' exampleWorld
       = Return None (exampleWorld\<lparr>effects :=
           [LockAcquired ''alice'', LoadErrorLogged DECRYPTION_FAILED, LockReleased]\<rparr>)"
    using loadProfile_failures [where E = exampleEnv and nm = "''alice''" and w = exampleWorld
        and password = "''wrong''" and blob = "''E:secret:state''" and k = "Key ''wrong''"] free
    by (simp add: Let_def example_defs)
  have f: "loadProfile exampleEnv ''busy'' ''secret'' exampleWorld = Return None exampleWorld"
    using loadProfile_failures [where E = exampleEnv and nm = "''busy''" and w = exampleWorld
        and password = "''secret''"] free
    by (simp add: Let_def exampleEnv_def)
  from a f b c d show ?thesis by blast
qed

subsection \<open>The encryption flag and the key\<close>

lemma Profile_new_encrypted_iff_key:
  "encrypted (Profile_new nm key) = (passkey (Profile_new nm key) \<noteq> None)"
  by (simp add: Profile_new_def)

lemma setPassword_empty_result:
  assumes "setPassword E [] p w = Return (err, p') w'"
  shows "p' = p\<lparr>encrypted := False\<rparr>"
  using assms
  by (auto simp: setPassword_def Let_def split: option.splits Outcome.splits)

text \<open>
  Claim C3. The constructor sets \<open>encrypted\<close> to \<open>passkey != nullptr\<close>. \<open>setPassword\<close> with
  an empty password on an encrypted profile returns with \<open>encrypted\<close> false and the old
  key still in \<open>passkey\<close>: the flag and the presence of the key differ.
\<close>

theorem setPassword_empty_keeps_passkey:
  "\<exists>err p' w'.
     setPassword exampleEnv []
       (exampleProfile\<lparr>passkey := Some (Key ''old''), encrypted := True\<rparr>) exampleLocked
       = Return (err, p') w'
     \<and> \<not> encrypted p' \<and> passkey p' = Some (Key ''old'')"
  by (simp add: setPassword_def onSaveToxSave_def saveToxSave_def saveToxSave_write_def
      loadAvatarData_def saveAvatar_def avatarPath_def Let_def example_defs
      ProfileLocker_assertLock_def ProfileLocker_getCurLockName_def QSaveFile_open_def
      QSaveFile_flush_def QSaveFile_commit_def QFile_openReadOnly_def QFile_exists_def
      QFile_remove_def)

subsection \<open>Failure of the protocol core\<close>

text \<open>
  Claim C4. When \<open>makeToxCore\<close> fails, \<open>initCore\<close> emits \<open>failedToStart\<close> and returns;
  \<open>loadProfile\<close> and \<open>createProfile\<close> go on to \<open>loadDatabase\<close>, whose \<open>assert(core)\<close>
  stops the process with the lock still held. Neither returns \<open>nullptr\<close>.
\<close>

theorem loadProfile_core_failure_stops:
  "loadProfile exampleEnv ''carol'' [] (exampleWorld\<lparr>files := [''/cfg/carol.tox'' \<mapsto> ''corrupt'']\<rparr>)
     = Crash (exampleWorld\<lparr>files := [''/cfg/carol.tox'' \<mapsto> ''corrupt''],
                curLockName := Some ''carol'',
                effects := [LockAcquired ''carol'', SettingsUpdateProfileData ''carol'' False,
                            Emitted failedToStart]\<rparr>)
   \<and> createProfile (exampleEnv\<lparr>makeToxCore := (\<lambda>save. Inl ERROR_ALLOC)\<rparr>) ''dave'' [] exampleWorld
     = Crash (exampleWorld\<lparr>curLockName := Some ''dave'',
                effects := [LockAcquired ''dave'', SettingsCreatePersonal ''dave'',
                            SettingsUpdateProfileData ''dave'' True, Emitted failedToStart]\<rparr>)"
  by (simp add: loadProfile_def createProfile_def createToxData_def logCreateToxDataError_def
      Settings_createPersonal_def ProfileLocker_hasLock_def ProfileLocker_lock_def
      loadToxData_def logLoadToxDataError_def Profile_new_def settings_updateProfileData_def
      initCore_def emit_signal_def loadDatabase_def QFile_exists_def QFile_openReadOnly_def
      QFile_size_def QFile_readAll_def Let_def example_defs)

subsection \<open>The salt of the history database\<close>

text \<open>
  Claim C5. \<open>loadDatabase\<close> with a public key whose length is not
  \<open>TOX_PASS_SALT_LENGTH\<close> shows the message and then constructs the database all the same;
  when the database opens, the history is enabled.
\<close>

theorem loadDatabase_short_salt_opens_database:
  "loadDatabase exampleEnv [] (exampleProfile\<lparr>core := Some (exampleCore\<lparr>selfPublicKey := ''short''\<rparr>)\<rparr>)
     exampleLocked
     = Return (exampleProfile\<lparr>core := Some (exampleCore\<lparr>selfPublicKey := ''short''\<rparr>),
                 database := Some \<lparr>dbPath = ''/cfg/bob.db'', dbIsOpen = True\<rparr>,
                 history := True\<rparr>)
         (exampleLocked\<lparr>effects := [ShowError chatLogsDisabled]\<rparr>)"
  by (simp add: loadDatabase_def RawDatabase_new_def getDbPath_def showError_def
      TOX_PASS_SALT_LENGTH_def Let_def example_defs)

subsection \<open>remove\<close>

lemma removeFromProfiles_filter:
  "removeFromProfiles nm i ps = take i ps @ filter (\<lambda>n. n \<noteq> nm) (drop i ps)"
proof (induction nm i ps rule: removeFromProfiles.induct)
  case (1 nm i ps)
  show ?case
  proof (cases "i < length ps")
    case False
    then show ?thesis by (subst removeFromProfiles.simps) simp
  next
    case inside: True
    have split_at: "drop i ps = ps ! i # drop (Suc i) ps"
      using inside by (simp add: Cons_nth_drop_Suc)
    show ?thesis
    proof (cases "ps ! i = nm")
      case True
      have "removeFromProfiles nm i ps = removeFromProfiles nm i (take i ps @ drop (Suc i) ps)"
        using inside True by (subst removeFromProfiles.simps) simp
      also have "\<dots> = take i (take i ps @ drop (Suc i) ps)
                        @ filter (\<lambda>n. n \<noteq> nm) (drop i (take i ps @ drop (Suc i) ps))"
        using "1.IH"(1) [OF inside True] .
      also have "\<dots> = take i ps @ filter (\<lambda>n. n \<noteq> nm) (drop (Suc i) ps)"
        using inside by simp
      finally show ?thesis using True split_at by simp
    next
      case False
      have "removeFromProfiles nm i ps = removeFromProfiles nm (Suc i) ps"
        using inside False by (subst removeFromProfiles.simps) simp
      also have "\<dots> = take (Suc i) ps @ filter (\<lambda>n. n \<noteq> nm) (drop (Suc i) ps)"
        using "1.IH"(2) [OF inside False] .
      finally show ?thesis using False split_at inside by (simp add: take_Suc_conv_app_nth)
    qed
  qed
qed

lemma QFile_remove_fst:
  "fst (QFile_remove E path w) = (QFile_exists w path \<and> canRemove E path)"
  by (simp add: QFile_remove_def)

lemma QFile_remove_files:
  "files (snd (QFile_remove E path w)) q
     = (if q = path \<and> canRemove E path then None else files w q)"
  by (simp add: QFile_remove_def QFile_exists_def)

lemma QFile_remove_exists:
  "QFile_exists (snd (QFile_remove E path w)) q
     = (QFile_exists w q \<and> \<not> (q = path \<and> canRemove E path))"
  by (auto simp: QFile_remove_def QFile_exists_def)

lemma QFile_remove_effects:
  "effects (snd (QFile_remove E path w))
     = effects w @ (if QFile_exists w path \<and> canRemove E path then [FileRemoved path] else [])"
  by (simp add: QFile_remove_def)

lemma QFile_remove_keeps:
  "curLockName (snd (QFile_remove E path w)) = curLockName w"
  "profiles (snd (QFile_remove E path w)) = profiles w"
  by (simp_all add: QFile_remove_def)

lemmas QFile_remove_simps = QFile_remove_fst QFile_remove_files QFile_remove_exists
  QFile_remove_effects QFile_remove_keeps

lemma remove_files_keeps:
  "isRemoved (fst (snd (remove_files E p w))) = isRemoved p"
  "curLockName (snd (snd (remove_files E p w))) = curLockName w"
  "profiles (snd (snd (remove_files E p w))) = profiles w"
  by (simp_all add: remove_files_def RawDatabase_remove_def Let_def split_beta QFile_remove_keeps
      split: option.split)

lemma remove_files_effects:
  "\<exists>dels. effects (snd (snd (remove_files E p w))) = effects w @ dels
          \<and> (\<forall>e \<in> set dels. \<exists>path. e = FileRemoved path)"
  by (auto simp: remove_files_def RawDatabase_remove_def Let_def split_beta QFile_remove_simps
      split: option.split)

lemma remove_files_main:
  "files (snd (snd (remove_files E p w))) (settingsDirPath E @ name p @ ''.tox'')
     = (if canRemove E (settingsDirPath E @ name p @ ''.tox'') then None
        else files w (settingsDirPath E @ name p @ ''.tox''))"
  "settingsDirPath E @ name p @ ''.tox'' \<in> set (fst (remove_files E p w))
     \<longleftrightarrow> QFile_exists w (settingsDirPath E @ name p @ ''.tox'')
         \<and> \<not> canRemove E (settingsDirPath E @ name p @ ''.tox'')"
  by (simp_all add: remove_files_def RawDatabase_remove_def getDbPath_def Let_def split_beta
      QFile_remove_simps split: option.split)


lemma remove_files_config:
  "files (snd (snd (remove_files E p w))) (settingsDirPath E @ name p @ ''.ini'')
     = (if canRemove E (settingsDirPath E @ name p @ ''.ini'') then None
        else files w (settingsDirPath E @ name p @ ''.ini''))"
  "settingsDirPath E @ name p @ ''.ini'' \<in> set (fst (remove_files E p w))
     \<longleftrightarrow> QFile_exists w (settingsDirPath E @ name p @ ''.ini'')
         \<and> \<not> canRemove E (settingsDirPath E @ name p @ ''.ini'')"
  by (simp_all add: remove_files_def RawDatabase_remove_def getDbPath_def Let_def split_beta
      QFile_remove_simps split: option.split)

lemma remove_files_database:
  assumes "database p = Some db" and "dbIsOpen db" and "dbPath db = getDbPath E (name p)"
  shows "files (snd (snd (remove_files E p w))) (getDbPath E (name p))
           = (if canRemove E (getDbPath E (name p)) then None
              else files w (getDbPath E (name p)))"
    and "getDbPath E (name p) \<in> set (fst (remove_files E p w))
           \<longleftrightarrow> QFile_exists w (getDbPath E (name p)) \<and> \<not> canRemove E (getDbPath E (name p))"
  using assms
  by (simp_all add: remove_files_def RawDatabase_remove_def getDbPath_def Let_def split_beta
      QFile_remove_simps)

lemma remove_files_ret:
  "set (fst (remove_files E p w))
     \<subseteq> {settingsDirPath E @ name p @ ''.tox'', settingsDirPath E @ name p @ ''.ini'',
         getDbPath E (name p)}"
  by (simp add: remove_files_def Let_def split_beta split: option.split)

lemma remove_begin_facts:
  "isRemoved (fst (remove_begin p w))"
  "name (fst (remove_begin p w)) = name p"
  "database (fst (remove_begin p w)) = database p"
  "curLockName (snd (remove_begin p w)) = None"
  "files (snd (remove_begin p w)) = files w"
  "profiles (snd (remove_begin p w)) = filter (\<lambda>n. n \<noteq> name p) (profiles w)"
  "effects (snd (remove_begin p w))
     = effects w @ (if curLockName w = None then [] else [LockReleased])"
  by (simp_all add: remove_begin_def ProfileLocker_unlock_def Let_def removeFromProfiles_filter
      split: option.split)

lemma remove_begin_exists:
  "QFile_exists (snd (remove_begin p w)) q = QFile_exists w q"
  by (simp add: QFile_exists_def remove_begin_facts)

text \<open>
  Claim C6. \<open>remove\<close> on a removed profile returns the empty list and changes neither the
  profile nor the world; so does a second call after any first one. On the first call the
  flag is set, the name is taken out of \<open>profiles\<close> and the lock is released while every
  file is still in place; then each of the save file, the settings file and (when the
  database is open) the database file is deleted if it can be, whatever happened to the
  others, and the returned list holds exactly the paths that exist and could not be
  removed. The only effects are the release of the lock followed by deletions.
\<close>

theorem remove_idempotent:
  "let tox = settingsDirPath E @ name p @ ''.tox'';
       ini = settingsDirPath E @ name p @ ''.ini'';
       dbp = getDbPath E (name p)
   in (isRemoved p \<longrightarrow> remove E p w = ([], p, w))
    \<and> (case remove E p w of (ret, p1, w1) \<Rightarrow> remove E p1 w1 = ([], p1, w1))
    \<and> (\<not> isRemoved p \<longrightarrow>
         (case remove_begin p w of
            (pb, wb) \<Rightarrow>
              isRemoved pb \<and> curLockName wb = None \<and> files wb = files w
              \<and> profiles wb = filter (\<lambda>n. n \<noteq> name p) (profiles w)
              \<and> effects wb = effects w @ (if curLockName w = None then [] else [LockReleased])
              \<and> remove E p w = remove_files E pb wb))
    \<and> (\<not> isRemoved p \<longrightarrow>
         (case remove E p w of
            (ret, p1, w1) \<Rightarrow>
              isRemoved p1 \<and> curLockName w1 = None
              \<and> (\<exists>dels. effects w1
                         = effects w @ (if curLockName w = None then [] else [LockReleased]) @ dels
                       \<and> (\<forall>e \<in> set dels. \<exists>path. e = FileRemoved path))
              \<and> files w1 tox = (if canRemove E tox then None else files w tox)
              \<and> files w1 ini = (if canRemove E ini then None else files w ini)
              \<and> (tox \<in> set ret \<longleftrightarrow> QFile_exists w tox \<and> \<not> canRemove E tox)
              \<and> (ini \<in> set ret \<longleftrightarrow> QFile_exists w ini \<and> \<not> canRemove E ini)
              \<and> (\<forall>db. database p = Some db \<and> dbIsOpen db \<and> dbPath db = dbp \<longrightarrow>
                    files w1 dbp = (if canRemove E dbp then None else files w dbp)
                    \<and> (dbp \<in> set ret \<longleftrightarrow> QFile_exists w dbp \<and> \<not> canRemove E dbp))
              \<and> set ret \<subseteq> {tox, ini, dbp}))"
proof -
  define pb where "pb = fst (remove_begin p w)"
  define wb where "wb = snd (remove_begin p w)"
  have first: "remove E p w = remove_files E pb wb" if "\<not> isRemoved p"
    using that by (simp add: remove_def split_beta pb_def wb_def)
  have guard: "remove E q v = ([], q, v)" if "isRemoved q" for q v
    using that by (simp add: remove_def)
  have removed: "isRemoved (fst (snd (remove_files E pb wb)))"
    by (simp add: remove_files_keeps pb_def remove_begin_facts)
  have again: "case remove E p w of (ret, p1, w1) \<Rightarrow> remove E p1 w1 = ([], p1, w1)"
  proof (cases "isRemoved p")
    case True
    then show ?thesis by (simp add: guard)
  next
    case False
    then show ?thesis using removed by (simp add: first split_beta guard)
  qed
  obtain dels where dels: "effects (snd (snd (remove_files E pb wb))) = effects wb @ dels"
      "\<forall>e \<in> set dels. \<exists>path. e = FileRemoved path"
    using remove_files_effects [of E pb wb] by blast
  have effs: "\<exists>dels. effects (snd (snd (remove_files E pb wb)))
                = effects w @ (if curLockName w = None then [] else [LockReleased]) @ dels
              \<and> (\<forall>e \<in> set dels. \<exists>path. e = FileRemoved path)"
    using dels by (simp add: wb_def remove_begin_facts)
  have nm: "name pb = name p" and dbs: "database pb = database p"
    by (simp_all add: pb_def remove_begin_facts)
  show ?thesis
    unfolding Let_def
  proof (intro conjI impI)
    show "remove E p w = ([], p, w)" if "isRemoved p"
      using that by (rule guard)
    show "case remove E p w of (ret, p1, w1) \<Rightarrow> remove E p1 w1 = ([], p1, w1)"
      by (rule again)
    show "case remove_begin p w of
            (pb, wb) \<Rightarrow>
              isRemoved pb \<and> curLockName wb = None \<and> files wb = files w
              \<and> profiles wb = filter (\<lambda>n. n \<noteq> name p) (profiles w)
              \<and> effects wb = effects w @ (if curLockName w = None then [] else [LockReleased])
              \<and> remove E p w = remove_files E pb wb" if "\<not> isRemoved p"
      using first [OF that] by (simp add: split_beta remove_begin_facts pb_def wb_def)
    show "case remove E p w of
            (ret, p1, w1) \<Rightarrow>
              isRemoved p1 \<and> curLockName w1 = None
              \<and> (\<exists>dels. effects w1
                         = effects w @ (if curLockName w = None then [] else [LockReleased]) @ dels
                       \<and> (\<forall>e \<in> set dels. \<exists>path. e = FileRemoved path))
              \<and> files w1 (settingsDirPath E @ name p @ ''.tox'')
                  = (if canRemove E (settingsDirPath E @ name p @ ''.tox'') then None
                     else files w (settingsDirPath E @ name p @ ''.tox''))
              \<and> files w1 (settingsDirPath E @ name p @ ''.ini'')
                  = (if canRemove E (settingsDirPath E @ name p @ ''.ini'') then None
                     else files w (settingsDirPath E @ name p @ ''.ini''))
              \<and> (settingsDirPath E @ name p @ ''.tox'' \<in> set ret
                   \<longleftrightarrow> QFile_exists w (settingsDirPath E @ name p @ ''.tox'')
                       \<and> \<not> canRemove E (settingsDirPath E @ name p @ ''.tox''))
              \<and> (settingsDirPath E @ name p @ ''.ini'' \<in> set ret
                   \<longleftrightarrow> QFile_exists w (settingsDirPath E @ name p @ ''.ini'')
                       \<and> \<not> canRemove E (settingsDirPath E @ name p @ ''.ini''))
              \<and> (\<forall>db. database p = Some db \<and> dbIsOpen db \<and> dbPath db = getDbPath E (name p) \<longrightarrow>
                    files w1 (getDbPath E (name p))
                      = (if canRemove E (getDbPath E (name p)) then None
                         else files w (getDbPath E (name p)))
                    \<and> (getDbPath E (name p) \<in> set ret
                         \<longleftrightarrow> QFile_exists w (getDbPath E (name p))
                             \<and> \<not> canRemove E (getDbPath E (name p))))
              \<and> set ret \<subseteq> {settingsDirPath E @ name p @ ''.tox'',
                             settingsDirPath E @ name p @ ''.ini'', getDbPath E (name p)}"
      if "\<not> isRemoved p"
      unfolding first [OF that] split_beta
    proof (intro conjI allI impI)
      show "isRemoved (fst (snd (remove_files E pb wb)))" by (rule removed)
      show "curLockName (snd (snd (remove_files E pb wb))) = None"
        by (simp add: remove_files_keeps wb_def remove_begin_facts)
      show "\<exists>dels. effects (snd (snd (remove_files E pb wb)))
                = effects w @ (if curLockName w = None then [] else [LockReleased]) @ dels
              \<and> (\<forall>e \<in> set dels. \<exists>path. e = FileRemoved path)"
        by (rule effs)
      show "files (snd (snd (remove_files E pb wb))) (settingsDirPath E @ name p @ ''.tox'')
              = (if canRemove E (settingsDirPath E @ name p @ ''.tox'') then None
                 else files w (settingsDirPath E @ name p @ ''.tox''))"
        using remove_files_main(1) [of E pb wb] by (simp add: nm wb_def remove_begin_facts)
      show "files (snd (snd (remove_files E pb wb))) (settingsDirPath E @ name p @ ''.ini'')
              = (if canRemove E (settingsDirPath E @ name p @ ''.ini'') then None
                 else files w (settingsDirPath E @ name p @ ''.ini''))"
        using remove_files_config(1) [of E pb wb] by (simp add: nm wb_def remove_begin_facts)
      show "settingsDirPath E @ name p @ ''.tox'' \<in> set (fst (remove_files E pb wb))
              \<longleftrightarrow> QFile_exists w (settingsDirPath E @ name p @ ''.tox'')
                  \<and> \<not> canRemove E (settingsDirPath E @ name p @ ''.tox'')"
        using remove_files_main(2) [of E pb wb] by (simp add: nm wb_def remove_begin_exists)
      show "settingsDirPath E @ name p @ ''.ini'' \<in> set (fst (remove_files E pb wb))
              \<longleftrightarrow> QFile_exists w (settingsDirPath E @ name p @ ''.ini'')
                  \<and> \<not> canRemove E (settingsDirPath E @ name p @ ''.ini'')"
        using remove_files_config(2) [of E pb wb] by (simp add: nm wb_def remove_begin_exists)
      show "set (fst (remove_files E pb wb))
              \<subseteq> {settingsDirPath E @ name p @ ''.tox'',
                  settingsDirPath E @ name p @ ''.ini'', getDbPath E (name p)}"
        using remove_files_ret [of E pb wb] by (simp add: nm)
    next
      fix db
      assume db: "database p = Some db \<and> dbIsOpen db \<and> dbPath db = getDbPath E (name p)"
      then have pre: "database pb = Some db" "dbIsOpen db" "dbPath db = getDbPath E (name pb)"
        by (simp_all add: nm dbs)
      show "files (snd (snd (remove_files E pb wb))) (getDbPath E (name p))
              = (if canRemove E (getDbPath E (name p)) then None
                 else files w (getDbPath E (name p)))"
        using remove_files_database(1) [OF pre, of wb] by (simp add: nm wb_def remove_begin_facts)
      show "getDbPath E (name p) \<in> set (fst (remove_files E pb wb))
              \<longleftrightarrow> QFile_exists w (getDbPath E (name p)) \<and> \<not> canRemove E (getDbPath E (name p))"
        using remove_files_database(2) [OF pre, of wb] by (simp add: nm wb_def remove_begin_exists)
    qed
  qed
qed

text \<open>
  The theorem on the example: the settings file cannot be removed and is the one path
  returned; the save file is gone; a second call does nothing.
\<close>

theorem remove_idempotent_witness:
  "\<not> isRemoved readonlyProfile
   \<and> (case remove exampleEnv readonlyProfile readonlyWorld of
         (ret, p1, w1) \<Rightarrow>
           ''/cfg/readonly.ini'' \<in> set ret \<and> ''/cfg/readonly.tox'' \<notin> set ret
           \<and> files w1 ''/cfg/readonly.tox'' = None \<and> files w1 ''/cfg/readonly.ini'' = Some ''y''
           \<and> isRemoved p1 \<and> curLockName w1 = None
           \<and> remove exampleEnv p1 w1 = ([], p1, w1))"
proof -
  have live: "\<not> isRemoved readonlyProfile"
    by (simp add: readonlyProfile_def exampleProfile_def)
  have paths: "settingsDirPath exampleEnv @ name readonlyProfile @ ''.tox'' = ''/cfg/readonly.tox''"
    "settingsDirPath exampleEnv @ name readonlyProfile @ ''.ini'' = ''/cfg/readonly.ini''"
    by (simp_all add: readonlyProfile_def exampleProfile_def exampleEnv_def)
  have can: "canRemove exampleEnv ''/cfg/readonly.tox''"
    "\<not> canRemove exampleEnv ''/cfg/readonly.ini''"
    by (simp_all add: exampleEnv_def)
  have there: "QFile_exists readonlyWorld ''/cfg/readonly.tox''"
    "QFile_exists readonlyWorld ''/cfg/readonly.ini''"
    "files readonlyWorld ''/cfg/readonly.ini'' = Some ''y''"
    by (simp_all add: QFile_exists_def readonlyWorld_def exampleWorld_def)
  note whole = remove_idempotent [where E = exampleEnv and p = readonlyProfile
      and w = readonlyWorld, unfolded Let_def paths]
  note again = whole [THEN conjunct2, THEN conjunct1]
  note once = whole [THEN conjunct2, THEN conjunct2, THEN conjunct2, THEN mp, OF live]
  from again once
  have "case remove exampleEnv readonlyProfile readonlyWorld of
         (ret, p1, w1) \<Rightarrow>
           ''/cfg/readonly.ini'' \<in> set ret \<and> ''/cfg/readonly.tox'' \<notin> set ret
           \<and> files w1 ''/cfg/readonly.tox'' = None \<and> files w1 ''/cfg/readonly.ini'' = Some ''y''
           \<and> isRemoved p1 \<and> curLockName w1 = None
           \<and> remove exampleEnv p1 w1 = ([], p1, w1)"
    by (simp add: split_beta can there)
  with live show ?thesis by simp
qed

subsection \<open>Avatars\<close>

lemma avatarPath_plain:
  "avatarPath E owner True p
     = Some (settingsDirPath E @ ''avatars/'' @ pkToString E owner @ ''.png'')"
  "\<not> encrypted p \<Longrightarrow> avatarPath E owner False p
     = Some (settingsDirPath E @ ''avatars/'' @ pkToString E owner @ ''.png'')"
  by (simp_all add: avatarPath_def)

lemma avatarPath_hashed:
  "encrypted p \<Longrightarrow> core p = Some c \<Longrightarrow>
   avatarPath E owner False p
     = Some (settingsDirPath E @ ''avatars/''
             @ toHexUpper (crypto_generichash E tox_public_key_size (pkToString E owner)
                             (selfPublicKey c))
             @ ''.png'')"
  by (simp add: avatarPath_def Let_def tox_public_key_size_def crypto_generichash_BYTES_MIN_def
      crypto_generichash_BYTES_MAX_def crypto_generichash_KEYBYTES_MIN_def
      crypto_generichash_KEYBYTES_MAX_def)

lemma avatarPath_returns:
  "core p = Some c \<Longrightarrow> \<exists>path. avatarPath E owner force p = Some path"
  by (cases "encrypted p"; cases force) (simp_all add: avatarPath_plain avatarPath_hashed)

lemma loadAvatarData_returns:
  assumes "core p = Some c" and "encrypted p \<longrightarrow> passkey p \<noteq> None"
  shows "\<exists>pic. loadAvatarData E owner p w = Some pic"
proof -
  obtain path0 where p0: "avatarPath E owner False p = Some path0"
    using avatarPath_returns [OF assms(1)] by blast
  show ?thesis
    using assms(2)
    by (auto simp: loadAvatarData_def p0 avatarPath_plain Let_def split: option.splits)
qed

text \<open>
  Claim C7. An avatar offer is accepted if and only if the hash of the cached avatar of
  that friend differs from the offered hash: the call returns, and the flag passed to
  \<open>handleAvatarOffer\<close> is that inequality.
\<close>

theorem avatar_offer_accepted_iff_hash_differs:
  assumes "core p = Some c" and "encrypted p \<longrightarrow> passkey p \<noteq> None"
  shows "\<exists>pic. loadAvatarData E (friendPublicKey c friendId) p w = Some pic
           \<and> getAvatarHash E (friendPublicKey c friendId) p w = Some (tox_hash E pic)
           \<and> onAvatarOfferReceived E friendId fileId offered filesize p w
               = Return ()
                   (w\<lparr>effects := effects w
                        @ [AvatarOfferHandled friendId fileId (tox_hash E pic \<noteq> offered) filesize]\<rparr>)"
proof -
  obtain pic where pic: "loadAvatarData E (friendPublicKey c friendId) p w = Some pic"
    using loadAvatarData_returns [OF assms] by blast
  then show ?thesis
    by (simp add: onAvatarOfferReceived_def getAvatarHash_def assms(1))
qed

text \<open>
  The theorem on the example: an offer with the hash of the cached avatar is rejected, an
  offer with another hash is accepted.
\<close>

theorem avatar_offer_accepted_iff_hash_differs_witness:
  "core exampleProfile = Some exampleCore
   \<and> \<not> encrypted exampleProfile
   \<and> onAvatarOfferReceived exampleEnv 7 1 ''#pic'' 3 exampleProfile
        (exampleWorld\<lparr>files := [''/cfg/avatars/FRIEND.png'' \<mapsto> ''pic'']\<rparr>)
       = Return () (exampleWorld\<lparr>files := [''/cfg/avatars/FRIEND.png'' \<mapsto> ''pic''],
                      effects := [AvatarOfferHandled 7 1 False 3]\<rparr>)
   \<and> onAvatarOfferReceived exampleEnv 7 1 ''#new'' 3 exampleProfile
        (exampleWorld\<lparr>files := [''/cfg/avatars/FRIEND.png'' \<mapsto> ''pic'']\<rparr>)
       = Return () (exampleWorld\<lparr>files := [''/cfg/avatars/FRIEND.png'' \<mapsto> ''pic''],
                      effects := [AvatarOfferHandled 7 1 True 3]\<rparr>)"
proof -
  have c: "core exampleProfile = Some exampleCore"
    and k: "encrypted exampleProfile \<longrightarrow> passkey exampleProfile \<noteq> None"
    by (simp_all add: exampleProfile_def)
  have cached: "loadAvatarData exampleEnv (friendPublicKey exampleCore 7) exampleProfile
        (exampleWorld\<lparr>files := [''/cfg/avatars/FRIEND.png'' \<mapsto> ''pic'']\<rparr>) = Some ''pic''"
    by (simp add: loadAvatarData_def avatarPath_def Let_def QFile_openReadOnly_def
        QFile_exists_def QFile_readAll_def example_defs)
  have same: "onAvatarOfferReceived exampleEnv 7 1 ''#pic'' 3 exampleProfile
        (exampleWorld\<lparr>files := [''/cfg/avatars/FRIEND.png'' \<mapsto> ''pic'']\<rparr>)
       = Return () (exampleWorld\<lparr>files := [''/cfg/avatars/FRIEND.png'' \<mapsto> ''pic''],
                      effects := [AvatarOfferHandled 7 1 False 3]\<rparr>)"
    using avatar_offer_accepted_iff_hash_differs [OF c k, of exampleEnv 7
        "exampleWorld\<lparr>files := [''/cfg/avatars/FRIEND.png'' \<mapsto> ''pic'']\<rparr>" 1 "''#pic''" 3]
    by (simp add: cached) (simp add: example_defs)
  have other: "onAvatarOfferReceived exampleEnv 7 1 ''#new'' 3 exampleProfile
        (exampleWorld\<lparr>files := [''/cfg/avatars/FRIEND.png'' \<mapsto> ''pic'']\<rparr>)
       = Return () (exampleWorld\<lparr>files := [''/cfg/avatars/FRIEND.png'' \<mapsto> ''pic''],
                      effects := [AvatarOfferHandled 7 1 True 3]\<rparr>)"
    using avatar_offer_accepted_iff_hash_differs [OF c k, of exampleEnv 7
        "exampleWorld\<lparr>files := [''/cfg/avatars/FRIEND.png'' \<mapsto> ''pic'']\<rparr>" 1 "''#new''" 3]
    by (simp add: cached) (simp add: example_defs)
  have u: "\<not> encrypted exampleProfile"
    by (simp add: exampleProfile_def)
  from c u same other show ?thesis by blast
qed

text \<open>
  Claim C9. On an encrypted profile, when no file exists at the hashed path,
  \<open>loadAvatarData\<close> returns the bytes of the file at the plaintext path of the same
  owner (nothing if it cannot be opened), whatever the decryption function is. When the
  file exists at the hashed path its non-empty content is decrypted. An unencrypted
  profile reads the plaintext path without decryption.
\<close>

theorem loadAvatarData_fallback:
  "let plain = settingsDirPath E @ ''avatars/'' @ pkToString E owner @ ''.png'' in
   (encrypted p \<and> avatarPath E owner False p = Some hashed \<and> \<not> QFile_exists w hashed
     \<longrightarrow> loadAvatarData E owner p w
           = Some (if QFile_openReadOnly E w plain then QFile_readAll w plain else [])
         \<and> loadAvatarData (E\<lparr>decrypt := other\<rparr>) owner p w = loadAvatarData E owner p w)
   \<and> (encrypted p \<and> avatarPath E owner False p = Some hashed \<and> QFile_exists w hashed
        \<and> passkey p = Some k
     \<longrightarrow> loadAvatarData E owner p w
           = Some (if QFile_openReadOnly E w hashed \<and> QFile_readAll w hashed \<noteq> []
                   then decrypt E k (QFile_readAll w hashed) else []))
   \<and> (\<not> encrypted p
     \<longrightarrow> loadAvatarData E owner p w
           = Some (if QFile_openReadOnly E w plain then QFile_readAll w plain else []))"
  by (auto simp: loadAvatarData_def avatarPath_def Let_def QFile_openReadOnly_def
      QFile_exists_def QFile_readAll_def split: option.splits)

text \<open>
  The theorem on the example: only the plaintext file exists and is returned as it is;
  with a file at the hashed path, that file is decrypted.
\<close>

theorem loadAvatarData_fallback_witness:
  "loadAvatarData exampleEnv ''FRIEND''
     (exampleProfile\<lparr>passkey := Some (Key ''s''), encrypted := True\<rparr>)
     (exampleWorld\<lparr>files := [''/cfg/avatars/FRIEND.png'' \<mapsto> ''pic'']\<rparr>) = Some ''pic''
   \<and> loadAvatarData exampleEnv ''FRIEND''
     (exampleProfile\<lparr>passkey := Some (Key ''s''), encrypted := True\<rparr>)
     (exampleWorld\<lparr>files := [''/cfg/avatars/FRIEND.png'' \<mapsto> ''pic'',
                              ''/cfg/avatars/68.png'' \<mapsto> ''E:s:new'']\<rparr>) = Some ''new''"
proof -
  have hashed: "avatarPath exampleEnv ''FRIEND'' False
     (exampleProfile\<lparr>passkey := Some (Key ''s''), encrypted := True\<rparr>) = Some ''/cfg/avatars/68.png''"
    by (simp add: avatarPath_hashed [where c = exampleCore] exampleProfile_def exampleEnv_def
        toHexUpper_def hexDigit_def)
  have a: "loadAvatarData exampleEnv ''FRIEND''
     (exampleProfile\<lparr>passkey := Some (Key ''s''), encrypted := True\<rparr>)
     (exampleWorld\<lparr>files := [''/cfg/avatars/FRIEND.png'' \<mapsto> ''pic'']\<rparr>) = Some ''pic''"
    using loadAvatarData_fallback [where E = exampleEnv and owner = "''FRIEND''"
        and p = "exampleProfile\<lparr>passkey := Some (Key ''s''), encrypted := True\<rparr>"
        and hashed = "''/cfg/avatars/68.png''"
        and w = "exampleWorld\<lparr>files := [''/cfg/avatars/FRIEND.png'' \<mapsto> ''pic'']\<rparr>"] hashed
    by (simp add: Let_def QFile_exists_def QFile_openReadOnly_def QFile_readAll_def example_defs)
  have b: "loadAvatarData exampleEnv ''FRIEND''
     (exampleProfile\<lparr>passkey := Some (Key ''s''), encrypted := True\<rparr>)
     (exampleWorld\<lparr>files := [''/cfg/avatars/FRIEND.png'' \<mapsto> ''pic'',
                              ''/cfg/avatars/68.png'' \<mapsto> ''E:s:new'']\<rparr>) = Some ''new''"
    using loadAvatarData_fallback [where E = exampleEnv and owner = "''FRIEND''"
        and p = "exampleProfile\<lparr>passkey := Some (Key ''s''), encrypted := True\<rparr>"
        and hashed = "''/cfg/avatars/68.png''" and k = "Key ''s''"
        and w = "exampleWorld\<lparr>files := [''/cfg/avatars/FRIEND.png'' \<mapsto> ''pic'',
                              ''/cfg/avatars/68.png'' \<mapsto> ''E:s:new'']\<rparr>"] hashed
    by (simp add: Let_def QFile_exists_def QFile_openReadOnly_def QFile_readAll_def example_defs)
  from a b show ?thesis by blast
qed

subsection \<open>rename\<close>

lemma QFile_rename_effects:
  "\<exists>evs. effects (snd (QFile_rename E old new w)) = effects w @ evs
         \<and> (\<forall>e \<in> set evs. \<exists>a b. e = FileRenamed a b)"
  by (auto simp: QFile_rename_def split: option.splits)

lemma QFile_rename_keeps:
  "curLockName (snd (QFile_rename E old new w)) = curLockName w"
  by (simp add: QFile_rename_def split: option.splits)

lemma RawDatabase_rename_effects:
  "\<exists>evs. effects (snd (RawDatabase_rename E newName db w)) = effects w @ evs
         \<and> (\<forall>e \<in> set evs. \<exists>a b. e = FileRenamed a b)"
  using QFile_rename_effects [of E "dbPath db" "getDbPath E newName" w]
  by (auto simp: RawDatabase_rename_def split: prod.splits bool.splits)

lemma RawDatabase_rename_keeps:
  "curLockName (snd (RawDatabase_rename E newName db w)) = curLockName w"
  using QFile_rename_keeps [of E "dbPath db" "getDbPath E newName" w]
  by (auto simp: RawDatabase_rename_def split: prod.splits bool.splits)

text \<open>
  Claim C8. \<open>rename\<close> first acquires the lock for the new name. If that fails it returns
  \<open>false\<close> and nothing has changed. If it succeeds, the acquisition is the first effect,
  every later effect is the renaming of a file, no lock is released, and the lock is held
  under the new name at the end.
\<close>

theorem rename_locks_new_name_first:
  "(\<not> lockAvailable E (curLockName w) newName \<longrightarrow> rename E newName p w = (False, p, w))
   \<and> (lockAvailable E (curLockName w) newName \<longrightarrow>
        (case rename E newName p w of
           (ok, p1, w1) \<Rightarrow>
             ok \<and> name p1 = newName \<and> curLockName w1 = Some newName
             \<and> (\<exists>renames. effects w1 = effects w @ LockAcquired newName # renames
                          \<and> (\<forall>e \<in> set renames. \<exists>a b. e = FileRenamed a b))))"
proof (intro conjI impI)
  assume "\<not> lockAvailable E (curLockName w) newName"
  then show "rename E newName p w = (False, p, w)"
    by (simp add: rename_def ProfileLocker_lock_def)
next
  assume ok: "lockAvailable E (curLockName w) newName"
  define w1 where "w1 = w\<lparr>curLockName := Some newName, effects := effects w @ [LockAcquired newName]\<rparr>"
  define w2 where "w2 = snd (QFile_rename E (settingsDirPath E @ name p @ ''.tox'')
                               (settingsDirPath E @ newName @ ''.tox'') w1)"
  define w3 where "w3 = snd (QFile_rename E (settingsDirPath E @ name p @ ''.ini'')
                               (settingsDirPath E @ newName @ ''.ini'') w2)"
  define w4 where "w4 = (case database p of None \<Rightarrow> w3
                         | Some db \<Rightarrow> snd (RawDatabase_rename E newName db w3))"
  obtain e2 where e2: "effects w2 = effects w1 @ e2" "\<forall>e \<in> set e2. \<exists>a b. e = FileRenamed a b"
    unfolding w2_def using QFile_rename_effects by blast
  obtain e3 where e3: "effects w3 = effects w2 @ e3" "\<forall>e \<in> set e3. \<exists>a b. e = FileRenamed a b"
    unfolding w3_def using QFile_rename_effects by blast
  obtain e4 where e4: "effects w4 = effects w3 @ e4" "\<forall>e \<in> set e4. \<exists>a b. e = FileRenamed a b"
  proof (cases "database p")
    case None
    then have "effects w4 = effects w3 @ []" by (simp add: w4_def)
    then show ?thesis using that [of "[]"] by simp
  next
    case (Some db)
    then show ?thesis
      using RawDatabase_rename_effects [of E newName db w3] that by (auto simp: w4_def)
  qed
  have lock4: "curLockName w4 = Some newName"
    by (cases "database p")
       (simp_all add: w4_def w3_def w2_def w1_def QFile_rename_keeps RawDatabase_rename_keeps)
  have eff4: "effects w4 = effects w @ LockAcquired newName # (e2 @ e3 @ e4)"
    using e2 e3 e4 by (simp add: w1_def)
  have all: "\<forall>e \<in> set (e2 @ e3 @ e4). \<exists>a b. e = FileRenamed a b"
    using e2 e3 e4 by auto
  have res: "rename E newName p w
      = (True, p\<lparr>name := newName,
                 database := (case database p of None \<Rightarrow> None
                              | Some db \<Rightarrow> Some (fst (RawDatabase_rename E newName db w3)))\<rparr>,
         (if autorun w4 then w4\<lparr>autorun := False, currentProfile := newName, autorun := True\<rparr>
          else w4\<lparr>autorun := False, currentProfile := newName\<rparr>))"
    using ok
    by (simp add: rename_def ProfileLocker_lock_def Let_def w1_def w2_def w3_def w4_def split_beta
        split: option.split)
  show "case rename E newName p w of
           (ok, p1, w1) \<Rightarrow>
             ok \<and> name p1 = newName \<and> curLockName w1 = Some newName
             \<and> (\<exists>renames. effects w1 = effects w @ LockAcquired newName # renames
                          \<and> (\<forall>e \<in> set renames. \<exists>a b. e = FileRenamed a b))"
    unfolding res using lock4 eff4 all by auto
qed

text \<open>
  The theorem on the example: the name \<open>busy\<close> is locked by another instance; the name
  \<open>carol\<close> is free.
\<close>

theorem rename_locks_new_name_first_witness:
  "rename exampleEnv ''busy'' exampleProfile exampleLocked = (False, exampleProfile, exampleLocked)
   \<and> (case rename exampleEnv ''carol'' exampleProfile exampleLocked of
         (ok, p1, w1) \<Rightarrow>
           ok \<and> name p1 = ''carol'' \<and> curLockName w1 = Some ''carol''
           \<and> (\<exists>renames. effects w1 = LockAcquired ''carol'' # renames
                        \<and> (\<forall>e \<in> set renames. \<exists>a b. e = FileRenamed a b)))"
proof -
  have a: "rename exampleEnv ''busy'' exampleProfile exampleLocked
             = (False, exampleProfile, exampleLocked)"
    using rename_locks_new_name_first [of exampleEnv exampleLocked "''busy''" exampleProfile]
    by (simp add: exampleEnv_def)
  have b: "case rename exampleEnv ''carol'' exampleProfile exampleLocked of
         (ok, p1, w1) \<Rightarrow>
           ok \<and> name p1 = ''carol'' \<and> curLockName w1 = Some ''carol''
           \<and> (\<exists>renames. effects w1 = LockAcquired ''carol'' # renames
                        \<and> (\<forall>e \<in> set renames. \<exists>a b. e = FileRenamed a b))"
    using rename_locks_new_name_first [of exampleEnv exampleLocked "''carol''" exampleProfile]
    by (simp add: exampleEnv_def exampleLocked_def exampleWorld_def)
  from a b show ?thesis by blast
qed

subsection \<open>setPassword\<close>

lemma saveAvatar_returns:
  assumes "core p = Some c" and "encrypted p \<longrightarrow> passkey p \<noteq> None"
  shows "\<exists>w'. saveAvatar E owner avatar p w = Return () w'"
proof -
  obtain path0 where p0: "avatarPath E owner False p = Some path0"
    using avatarPath_returns [OF assms(1)] by blast
  show ?thesis
    using assms(2) by (auto simp: saveAvatar_def p0 Let_def split: option.splits)
qed

lemma resaveFriendAvatars_returns:
  assumes "core p = Some c'" and "encrypted p \<longrightarrow> passkey p \<noteq> None"
  shows "\<exists>w'. resaveFriendAvatars E c friends p w = Return () w'"
proof (induction friends arbitrary: w)
  case Nil
  show ?case by simp
next
  case (Cons friendId rest)
  obtain pic where pic: "loadAvatarData E (friendPublicKey c friendId) p w = Some pic"
    using loadAvatarData_returns [OF assms] by blast
  obtain w1 where w1: "saveAvatar E (friendPublicKey c friendId) pic p w = Return () w1"
    using saveAvatar_returns [OF assms] by blast
  show ?case using Cons.IH [of w1] by (simp add: pic w1)
qed

lemma setPassword_empty_return:
  assumes "setPassword E newPassword p w = Return ([], p'') w'"
  shows "\<exists>db. database p = Some db \<and> dbSetPasswordOk E db newPassword"
proof (cases "database p")
  case None
  have ne: "deriveKeyFailed \<noteq> []" "dbPasswordError \<noteq> []"
    by (simp_all add: deriveKeyFailed_def dbPasswordError_def)
  from assms None ne show ?thesis
    by (auto simp: setPassword_def Let_def split: option.splits Outcome.splits if_splits)
next
  case (Some db)
  have ne: "deriveKeyFailed \<noteq> []" "dbPasswordError \<noteq> []"
    by (simp_all add: deriveKeyFailed_def dbPasswordError_def)
  from assms Some ne show ?thesis
    by (auto simp: setPassword_def Let_def split: option.splits Outcome.splits if_splits)
qed

lemma saveToxSave_returns:
  assumes "\<not> isRemoved p" and "curLockName w = Some (name p)"
    and "encrypted p \<longrightarrow> passkey p \<noteq> None"
  shows "\<exists>saved v. saveToxSave E data p w = Return saved v"
  using assms
  by (auto simp: saveToxSave_def saveToxSave_write_def Let_def ProfileLocker_assertLock_def
      ProfileLocker_getCurLockName_def split: option.splits)

lemma setPassword_steps:
  assumes c: "core p = Some c" and d: "toxSaveData c \<noteq> []" and r: "\<not> isRemoved p"
    and l: "curLockName w = Some (name p)"
    and key: "newPassword \<noteq> [] \<longrightarrow> makeToxEncrypt E newPassword = Some k"
    and p1: "p1 = (if newPassword = [] then p\<lparr>encrypted := False\<rparr>
                   else p\<lparr>passkey := Some k, encrypted := True\<rparr>)"
  shows "\<exists>saved v1 avatar v2 v3.
           saveToxSave E (toxSaveData c) p1 w = Return saved v1
           \<and> loadAvatarData E (selfPublicKey c) p1 v1 = Some avatar
           \<and> saveAvatar E (selfPublicKey c) avatar p1 v1 = Return () v2
           \<and> resaveFriendAvatars E c (friendList c) p1 v2 = Return () v3
           \<and> setPassword E newPassword p w
               = Return (if (case database p of None \<Rightarrow> False
                             | Some db \<Rightarrow> dbSetPasswordOk E db newPassword)
                         then [] else dbPasswordError, p1) v3"
proof -
  have c1: "core p1 = Some c" and r1: "\<not> isRemoved p1" and n1: "name p1 = name p"
    and db1: "database p1 = database p"
    using c r by (simp_all add: p1)
  have enc': "encrypted p1 \<longrightarrow> passkey p1 \<noteq> None" by (simp add: p1)
  have l1: "curLockName w = Some (name p1)" using l n1 by simp
  have step1: "(if newPassword = [] then Some (p\<lparr>encrypted := False\<rparr>)
            else (case makeToxEncrypt E newPassword of
                    None \<Rightarrow> None
                  | Some newpasskey \<Rightarrow> Some (p\<lparr>passkey := Some newpasskey, encrypted := True\<rparr>)))
          = Some p1"
    using key by (auto simp: p1)
  obtain saved v1 where sv: "saveToxSave E (toxSaveData c) p1 w = Return saved v1"
    using saveToxSave_returns [OF r1 l1 enc'] by blast
  have onsave: "onSaveToxSave E p1 w = Return () v1"
    using d by (simp add: onSaveToxSave_def c1 sv)
  obtain avatar where av: "loadAvatarData E (selfPublicKey c) p1 v1 = Some avatar"
    using loadAvatarData_returns [OF c1 enc'] by blast
  obtain v2 where v2: "saveAvatar E (selfPublicKey c) avatar p1 v1 = Return () v2"
    using saveAvatar_returns [OF c1 enc'] by blast
  obtain v3 where v3: "resaveFriendAvatars E c (friendList c) p1 v2 = Return () v3"
    using resaveFriendAvatars_returns [OF c1 enc'] by blast
  have "setPassword E newPassword p w
          = Return (if (case database p of None \<Rightarrow> False
                         | Some db \<Rightarrow> dbSetPasswordOk E db newPassword)
                     then [] else dbPasswordError, p1) v3"
    unfolding setPassword_def step1
    by (simp add: onsave c1 av v2 v3 db1 Let_def)
  with sv av v2 v3 show ?thesis by blast
qed

text \<open>What the avatar functions do to the files, and which files they read.\<close>

lemma QSaveFile_commit_files:
  "files (QSaveFile_commit E path staged w) q
     = (if q = path \<and> commitOk E path then Some staged else files w q)"
  by (simp add: QSaveFile_commit_def)

lemma avatarPath_is_png:
  assumes "avatarPath E owner force p = Some q"
  shows "\<exists>stem. q = settingsDirPath E @ ''avatars/'' @ stem @ ''.png''"
  using assms by (auto simp: avatarPath_def Let_def split: if_splits option.splits)

lemma avatarPath_not_tox:
  assumes "avatarPath E owner force p = Some q"
  shows "q \<noteq> settingsDirPath E @ nm @ ''.tox''"
proof
  assume eq: "q = settingsDirPath E @ nm @ ''.tox''"
  obtain stem where "q = settingsDirPath E @ ''avatars/'' @ stem @ ''.png''"
    using avatarPath_is_png [OF assms] by blast
  with eq have "''avatars/'' @ stem @ ''.png'' = nm @ ''.tox''" by simp
  then have "last (''avatars/'' @ stem @ ''.png'') = last (nm @ ''.tox'')" by simp
  then show False by simp
qed

lemma loadAvatarData_same_files:
  assumes "avatarPath E owner False p = Some h" and "avatarPath E owner True p = Some pl"
    and "files v h = files w h" and "files v pl = files w pl"
  shows "loadAvatarData E owner p v = loadAvatarData E owner p w"
  by (auto simp: loadAvatarData_def assms Let_def QFile_exists_def QFile_openReadOnly_def
      QFile_readAll_def)

lemma saveAvatar_files:
  assumes "core p = Some c" and "encrypted p \<longrightarrow> passkey p = Some k"
    and "avatarPath E owner False p = Some h"
  shows "\<exists>w'. saveAvatar E owner avatar p w = Return () w'
           \<and> (\<forall>q. q \<noteq> h \<longrightarrow> files w' q = files w q)
           \<and> files w' h
               = (let stored = (if encrypted p \<and> avatar \<noteq> [] then encrypt E k avatar else avatar)
                  in if stored = [] then (if canRemove E h then None else files w h)
                     else if canOpenWrite E h \<and> commitOk E h then Some stored
                     else files w h)"
  using assms(2)
  by (simp add: saveAvatar_def assms(3) Let_def QFile_remove_files QSaveFile_commit_files
      QSaveFile_open_def)


lemma resaveFriendAvatars_files:
  assumes c: "core p = Some c'" and enc: "encrypted p \<longrightarrow> passkey p = Some k"
    and hp: "\<forall>pk. avatarPath E pk False p = Some (H pk)"
    and pp: "\<forall>pk. avatarPath E pk True p = Some (P pk)"
    and dist: "distinct (map (\<lambda>f. H (friendPublicKey c f)) fs)"
    and sep: "\<forall>f \<in> set fs. \<forall>g \<in> set fs.
                friendPublicKey c f \<noteq> friendPublicKey c g
                \<longrightarrow> P (friendPublicKey c g) \<noteq> H (friendPublicKey c f)"
  shows "\<exists>w'. resaveFriendAvatars E c fs p w = Return () w'
           \<and> (\<forall>q. q \<notin> (\<lambda>f. H (friendPublicKey c f)) ` set fs \<longrightarrow> files w' q = files w q)
           \<and> (\<forall>f \<in> set fs. \<exists>pic.
                 loadAvatarData E (friendPublicKey c f) p w = Some pic
                 \<and> files w' (H (friendPublicKey c f))
                     = (let stored = (if encrypted p \<and> pic \<noteq> [] then encrypt E k pic else pic)
                        in if stored = []
                           then (if canRemove E (H (friendPublicKey c f)) then None
                                 else files w (H (friendPublicKey c f)))
                           else if canOpenWrite E (H (friendPublicKey c f))
                                   \<and> commitOk E (H (friendPublicKey c f)) then Some stored
                           else files w (H (friendPublicKey c f))))"
  using dist sep
proof (induction fs arbitrary: w)
  case Nil
  show ?case by simp
next
  case (Cons f fs)
  let ?pk = "friendPublicKey c f"
  have enc': "encrypted p \<longrightarrow> passkey p \<noteq> None" using enc by simp
  obtain pic where pic: "loadAvatarData E ?pk p w = Some pic"
    using loadAvatarData_returns [OF c enc'] by blast
  obtain w1 where w1: "saveAvatar E ?pk pic p w = Return () w1"
    and frame1: "\<forall>q. q \<noteq> H ?pk \<longrightarrow> files w1 q = files w q"
    and at1: "files w1 (H ?pk)
               = (let stored = (if encrypted p \<and> pic \<noteq> [] then encrypt E k pic else pic)
                  in if stored = [] then (if canRemove E (H ?pk) then None else files w (H ?pk))
                     else if canOpenWrite E (H ?pk) \<and> commitOk E (H ?pk) then Some stored
                     else files w (H ?pk))"
    using saveAvatar_files [OF c enc hp [rule_format], of ?pk pic w] by blast
  have dist': "distinct (map (\<lambda>f. H (friendPublicKey c f)) fs)"
    and fresh: "H ?pk \<notin> (\<lambda>f. H (friendPublicKey c f)) ` set fs"
    using Cons.prems(1) by auto
  have sep': "\<forall>f \<in> set fs. \<forall>g \<in> set fs.
                friendPublicKey c f \<noteq> friendPublicKey c g
                \<longrightarrow> P (friendPublicKey c g) \<noteq> H (friendPublicKey c f)"
    using Cons.prems(2) by auto
  obtain w' where w': "resaveFriendAvatars E c fs p w1 = Return () w'"
    and frame: "\<forall>q. q \<notin> (\<lambda>f. H (friendPublicKey c f)) ` set fs \<longrightarrow> files w' q = files w1 q"
    and rest: "\<forall>g \<in> set fs. \<exists>pic.
                 loadAvatarData E (friendPublicKey c g) p w1 = Some pic
                 \<and> files w' (H (friendPublicKey c g))
                     = (let stored = (if encrypted p \<and> pic \<noteq> [] then encrypt E k pic else pic)
                        in if stored = []
                           then (if canRemove E (H (friendPublicKey c g)) then None
                                 else files w1 (H (friendPublicKey c g)))
                           else if canOpenWrite E (H (friendPublicKey c g))
                                   \<and> commitOk E (H (friendPublicKey c g)) then Some stored
                           else files w1 (H (friendPublicKey c g)))"
    using Cons.IH [OF dist' sep', of w1] by blast
  have run: "resaveFriendAvatars E c (f # fs) p w = Return () w'"
    by (simp add: pic w1 w')
  have untouched: "files w1 (H (friendPublicKey c g)) = files w (H (friendPublicKey c g))
                   \<and> loadAvatarData E (friendPublicKey c g) p w1
                       = loadAvatarData E (friendPublicKey c g) p w"
    if g: "g \<in> set fs" for g
  proof -
    have hne: "H (friendPublicKey c g) \<noteq> H ?pk" using fresh g by (metis imageI)
    then have one: "friendPublicKey c f \<noteq> friendPublicKey c g" by auto
    have pne: "P (friendPublicKey c g) \<noteq> H ?pk"
      using Cons.prems(2) g one by auto
    have a: "files w1 (H (friendPublicKey c g)) = files w (H (friendPublicKey c g))"
      using frame1 hne by simp
    have b: "files w1 (P (friendPublicKey c g)) = files w (P (friendPublicKey c g))"
      using frame1 pne by simp
    show ?thesis
      using loadAvatarData_same_files [OF hp [rule_format] pp [rule_format] a b] a by simp
  qed
  have frameC: "\<forall>q. q \<notin> (\<lambda>f. H (friendPublicKey c f)) ` set (f # fs) \<longrightarrow> files w' q = files w q"
    using frame frame1 by auto
  have contentC: "\<forall>g \<in> set (f # fs). \<exists>pic.
                 loadAvatarData E (friendPublicKey c g) p w = Some pic
                 \<and> files w' (H (friendPublicKey c g))
                     = (let stored = (if encrypted p \<and> pic \<noteq> [] then encrypt E k pic else pic)
                        in if stored = []
                           then (if canRemove E (H (friendPublicKey c g)) then None
                                 else files w (H (friendPublicKey c g)))
                           else if canOpenWrite E (H (friendPublicKey c g))
                                   \<and> commitOk E (H (friendPublicKey c g)) then Some stored
                           else files w (H (friendPublicKey c g)))"
  proof
    fix g assume g: "g \<in> set (f # fs)"
    show "\<exists>pic. loadAvatarData E (friendPublicKey c g) p w = Some pic
                 \<and> files w' (H (friendPublicKey c g))
                     = (let stored = (if encrypted p \<and> pic \<noteq> [] then encrypt E k pic else pic)
                        in if stored = []
                           then (if canRemove E (H (friendPublicKey c g)) then None
                                 else files w (H (friendPublicKey c g)))
                           else if canOpenWrite E (H (friendPublicKey c g))
                                   \<and> commitOk E (H (friendPublicKey c g)) then Some stored
                           else files w (H (friendPublicKey c g)))"
    proof (cases "g \<in> set fs")
      case True
      obtain pic' where l1: "loadAvatarData E (friendPublicKey c g) p w1 = Some pic'"
        and f1: "files w' (H (friendPublicKey c g))
                     = (let stored = (if encrypted p \<and> pic' \<noteq> [] then encrypt E k pic' else pic')
                        in if stored = []
                           then (if canRemove E (H (friendPublicKey c g)) then None
                                 else files w1 (H (friendPublicKey c g)))
                           else if canOpenWrite E (H (friendPublicKey c g))
                                   \<and> commitOk E (H (friendPublicKey c g)) then Some stored
                           else files w1 (H (friendPublicKey c g)))"
        using rest True by blast
      have same: "files w1 (H (friendPublicKey c g)) = files w (H (friendPublicKey c g))"
        and l: "loadAvatarData E (friendPublicKey c g) p w = Some pic'"
        using untouched [OF True] l1 by simp_all
      show ?thesis
        using l f1 [unfolded same] by blast
    next
      case False
      then have gf: "g = f" using g by simp
      have "files w' (H ?pk) = files w1 (H ?pk)" using frame fresh by simp
      then show ?thesis using pic at1 unfolding gf by (simp only:) blast
    qed
  qed
  show ?case using run frameC contentC by blast
qed


lemma setPassword_files:
  assumes c: "core p = Some c" and d: "toxSaveData c \<noteq> []" and r: "\<not> isRemoved p"
    and l: "curLockName w = Some (name p)" and nodb: "database p = None"
    and key: "newPassword \<noteq> [] \<longrightarrow> makeToxEncrypt E newPassword = Some k"
    and p1: "p1 = (if newPassword = [] then p\<lparr>encrypted := False\<rparr>
                   else p\<lparr>passkey := Some k, encrypted := True\<rparr>)"
    and tp: "toxPath = settingsDirPath E @ name p @ ''.tox''"
    and pl: "payload = (if newPassword = [] then toxSaveData c
                        else encrypt E k (toxSaveData c))"
    and ok: "canOpenWrite E toxPath" "flushOk E toxPath" "commitOk E toxPath" "payload \<noteq> []"
    and w1: "w1 = QSaveFile_commit E toxPath payload w"
    and ow: "owners = selfPublicKey c # map (friendPublicKey c) (friendList c)"
    and hp: "\<forall>pk. avatarPath E pk False p1 = Some (H pk)"
    and pp: "\<forall>pk. avatarPath E pk True p1 = Some (P pk)"
    and dist: "distinct (map H owners)"
    and sep: "\<forall>a \<in> set owners. \<forall>b \<in> set owners. a \<noteq> b \<longrightarrow> P b \<noteq> H a"
  shows "\<exists>w'. setPassword E newPassword p w = Return (dbPasswordError, p1) w'
           \<and> files w' toxPath = Some payload
           \<and> (\<forall>pk \<in> set owners. \<exists>pic.
                 loadAvatarData E pk p1 w1 = Some pic
                 \<and> files w' (H pk)
                     = (let stored = (if encrypted p1 \<and> pic \<noteq> [] then encrypt E k pic else pic)
                        in if stored = [] then (if canRemove E (H pk) then None
                                                 else files w1 (H pk))
                           else if canOpenWrite E (H pk) \<and> commitOk E (H pk) then Some stored
                           else files w1 (H pk)))
           \<and> (\<forall>q. q \<noteq> toxPath \<and> q \<notin> H ` set owners \<longrightarrow> files w' q = files w q)"
proof -
  let ?self = "selfPublicKey c"
  let ?fpk = "friendPublicKey c"
  have c1: "core p1 = Some c" and r1: "\<not> isRemoved p1" and n1: "name p1 = name p"
    and db1: "database p1 = None"
    using c r nodb by (simp_all add: p1)
  have e1: "encrypted p1 = (newPassword \<noteq> [])" by (simp add: p1)
  have enc: "encrypted p1 \<longrightarrow> passkey p1 = Some k" by (simp add: p1)
  have enc': "encrypted p1 \<longrightarrow> passkey p1 \<noteq> None" using enc by simp
  have step1: "(if newPassword = [] then Some (p\<lparr>encrypted := False\<rparr>)
            else (case makeToxEncrypt E newPassword of
                    None \<Rightarrow> None
                  | Some newpasskey \<Rightarrow> Some (p\<lparr>passkey := Some newpasskey, encrypted := True\<rparr>)))
          = Some p1"
    using key by (auto simp: p1)
  have save: "saveToxSave E (toxSaveData c) p1 w = Return True w1"
    using r1 l ok
    by (auto simp: saveToxSave_def saveToxSave_write_def Let_def ProfileLocker_assertLock_def
        ProfileLocker_getCurLockName_def QSaveFile_open_def QSaveFile_flush_def n1 tp [symmetric]
        p1 pl w1 split: if_splits)
  have onsave: "onSaveToxSave E p1 w = Return () w1"
    using d by (simp add: onSaveToxSave_def c1 save)
  have w1_files: "files w1 q = (if q = toxPath then Some payload else files w q)" for q
    using ok(3) by (simp add: w1 QSaveFile_commit_files)
  obtain avatar where av: "loadAvatarData E ?self p1 w1 = Some avatar"
    using loadAvatarData_returns [OF c1 enc'] by blast
  obtain w2 where w2: "saveAvatar E ?self avatar p1 w1 = Return () w2"
    and frame2: "\<forall>q. q \<noteq> H ?self \<longrightarrow> files w2 q = files w1 q"
    and at2: "files w2 (H ?self)
               = (let stored = (if encrypted p1 \<and> avatar \<noteq> [] then encrypt E k avatar
                                else avatar)
                  in if stored = [] then (if canRemove E (H ?self) then None
                                           else files w1 (H ?self))
                     else if canOpenWrite E (H ?self) \<and> commitOk E (H ?self) then Some stored
                     else files w1 (H ?self))"
    using saveAvatar_files [OF c1 enc hp [rule_format], of ?self avatar w1] by blast
  have distF: "distinct (map (\<lambda>f. H (?fpk f)) (friendList c))"
    and selfF: "H ?self \<notin> (\<lambda>f. H (?fpk f)) ` set (friendList c)"
    using dist by (auto simp: ow comp_def)
  have sepF: "\<forall>f \<in> set (friendList c). \<forall>g \<in> set (friendList c).
                ?fpk f \<noteq> ?fpk g \<longrightarrow> P (?fpk g) \<noteq> H (?fpk f)"
    using sep by (auto simp: ow)
  obtain w3 where w3: "resaveFriendAvatars E c (friendList c) p1 w2 = Return () w3"
    and frame3: "\<forall>q. q \<notin> (\<lambda>f. H (?fpk f)) ` set (friendList c) \<longrightarrow> files w3 q = files w2 q"
    and at3: "\<forall>f \<in> set (friendList c). \<exists>pic.
                 loadAvatarData E (?fpk f) p1 w2 = Some pic
                 \<and> files w3 (H (?fpk f))
                     = (let stored = (if encrypted p1 \<and> pic \<noteq> [] then encrypt E k pic else pic)
                        in if stored = []
                           then (if canRemove E (H (?fpk f)) then None
                                 else files w2 (H (?fpk f)))
                           else if canOpenWrite E (H (?fpk f))
                                   \<and> commitOk E (H (?fpk f)) then Some stored
                           else files w2 (H (?fpk f)))"
    using resaveFriendAvatars_files [OF c1 enc hp pp distF sepF, of w2] by blast
  have result: "setPassword E newPassword p w = Return (dbPasswordError, p1) w3"
    unfolding setPassword_def step1
    by (simp add: onsave c1 av w2 w3 db1 Let_def)
  have nottox: "H pk \<noteq> toxPath" for pk
    using avatarPath_not_tox [OF hp [rule_format], of pk "name p"] by (simp add: tp)
  have tox: "files w3 toxPath = Some payload"
  proof -
    have "files w3 toxPath = files w2 toxPath"
      using frame3 nottox by (metis (no_types, lifting) imageE)
    also have "\<dots> = files w1 toxPath" using frame2 nottox by metis
    also have "\<dots> = Some payload" by (simp add: w1_files)
    finally show ?thesis .
  qed
  have selfC: "files w3 (H ?self) = files w2 (H ?self)"
    using frame3 selfF by simp
  have friendC: "\<exists>pic. loadAvatarData E (?fpk f) p1 w1 = Some pic
                 \<and> files w3 (H (?fpk f))
                     = (let stored = (if encrypted p1 \<and> pic \<noteq> [] then encrypt E k pic else pic)
                        in if stored = []
                           then (if canRemove E (H (?fpk f)) then None
                                 else files w1 (H (?fpk f)))
                           else if canOpenWrite E (H (?fpk f))
                                   \<and> commitOk E (H (?fpk f)) then Some stored
                           else files w1 (H (?fpk f)))"
    if f: "f \<in> set (friendList c)" for f
  proof -
    have hne: "H (?fpk f) \<noteq> H ?self" using selfF f by (metis imageI)
    then have ne: "?self \<noteq> ?fpk f" by auto
    have "?self \<in> set owners" "?fpk f \<in> set owners" using f by (simp_all add: ow)
    then have pne: "P (?fpk f) \<noteq> H ?self" using sep ne by blast
    have a: "files w2 (H (?fpk f)) = files w1 (H (?fpk f))" using frame2 hne by simp
    have b: "files w2 (P (?fpk f)) = files w1 (P (?fpk f))" using frame2 pne by simp
    have same: "loadAvatarData E (?fpk f) p1 w2 = loadAvatarData E (?fpk f) p1 w1"
      using loadAvatarData_same_files [OF hp [rule_format] pp [rule_format] a b] .
    obtain pic where l2: "loadAvatarData E (?fpk f) p1 w2 = Some pic"
      and f3: "files w3 (H (?fpk f))
                     = (let stored = (if encrypted p1 \<and> pic \<noteq> [] then encrypt E k pic else pic)
                        in if stored = []
                           then (if canRemove E (H (?fpk f)) then None
                                 else files w2 (H (?fpk f)))
                           else if canOpenWrite E (H (?fpk f))
                                   \<and> commitOk E (H (?fpk f)) then Some stored
                           else files w2 (H (?fpk f)))"
      using at3 f by blast
    have l1: "loadAvatarData E (?fpk f) p1 w1 = Some pic" using l2 same by simp
    show ?thesis using l1 f3 [unfolded a] by blast
  qed
  have content: "\<forall>pk \<in> set owners. \<exists>pic.
                 loadAvatarData E pk p1 w1 = Some pic
                 \<and> files w3 (H pk)
                     = (let stored = (if encrypted p1 \<and> pic \<noteq> [] then encrypt E k pic else pic)
                        in if stored = [] then (if canRemove E (H pk) then None
                                                 else files w1 (H pk))
                           else if canOpenWrite E (H pk) \<and> commitOk E (H pk) then Some stored
                           else files w1 (H pk))"
  proof
    fix pk assume "pk \<in> set owners"
    then consider "pk = ?self" | f where "f \<in> set (friendList c)" "pk = ?fpk f"
      by (auto simp: ow)
    then show "\<exists>pic. loadAvatarData E pk p1 w1 = Some pic
                 \<and> files w3 (H pk)
                     = (let stored = (if encrypted p1 \<and> pic \<noteq> [] then encrypt E k pic else pic)
                        in if stored = [] then (if canRemove E (H pk) then None
                                                 else files w1 (H pk))
                           else if canOpenWrite E (H pk) \<and> commitOk E (H pk) then Some stored
                           else files w1 (H pk))"
    proof cases
      case 1
      show ?thesis unfolding 1 using av at2 selfC by (simp only:) blast
    next
      case 2
      show ?thesis unfolding 2(2) using friendC [OF 2(1)] .
    qed
  qed
  have frame: "\<forall>q. q \<noteq> toxPath \<and> q \<notin> H ` set owners \<longrightarrow> files w3 q = files w q"
  proof (intro allI impI)
    fix q assume q: "q \<noteq> toxPath \<and> q \<notin> H ` set owners"
    then have "q \<noteq> H ?self" and "q \<notin> (\<lambda>f. H (?fpk f)) ` set (friendList c)"
      by (auto simp: ow)
    then have "files w3 q = files w1 q" using frame3 frame2 by simp
    then show "files w3 q = files w q" using q by (simp add: w1_files)
  qed
  show ?thesis using result tox content frame by blast
qed

text \<open>
  Claim C10. \<open>setPassword\<close> on a profile without a database handle, when the key is
  replaced (the password is empty or the derivation gives the key \<open>k\<close>), returns the
  database password error, which is not empty, with the profile under its new key, in the
  world that \<open>saveToxSave\<close>, the re-saving of the own avatar and the loop over the friends
  leave behind, in this order. When moreover the save file can be opened, flushed and
  committed and the (encrypted) data is not empty, and the cached avatar files of the owner
  and of the friends are pairwise different and none is the plaintext file of another, then
  after the call the save file holds exactly the data under the new key; the cache file of
  each owner holds the avatar read after the save, encrypted under the new key if there
  is one (or is removed when there is no avatar, or untouched when it cannot be
  written); and every other file is as before. An empty string is returned only when a
  database handle exists and its re-key succeeds.
\<close>

theorem setPassword_without_database_reports_error:
  "let data = toxSaveData c;
       p1 = (if newPassword = [] then p\<lparr>encrypted := False\<rparr>
             else p\<lparr>passkey := Some k, encrypted := True\<rparr>);
       toxPath = settingsDirPath E @ name p @ ''.tox'';
       payload = (if newPassword = [] then data else encrypt E k data);
       w1 = QSaveFile_commit E toxPath payload w;
       plain = (\<lambda>pk. settingsDirPath E @ ''avatars/'' @ pkToString E pk @ ''.png'');
       cache = (\<lambda>pk. if newPassword = [] then plain pk
                      else settingsDirPath E @ ''avatars/''
                           @ toHexUpper (crypto_generichash E tox_public_key_size
                                           (pkToString E pk) (selfPublicKey c))
                           @ ''.png'');
       owners = selfPublicKey c # map (friendPublicKey c) (friendList c);
       called = (core p = Some c \<and> data \<noteq> [] \<and> \<not> isRemoved p
                 \<and> curLockName w = Some (name p) \<and> database p = None
                 \<and> (newPassword \<noteq> [] \<longrightarrow> makeToxEncrypt E newPassword = Some k));
       saved = (canOpenWrite E toxPath \<and> flushOk E toxPath \<and> commitOk E toxPath
                \<and> payload \<noteq> []);
       apart = (distinct (map cache owners)
                \<and> (\<forall>a \<in> set owners. \<forall>b \<in> set owners. a \<noteq> b \<longrightarrow> plain b \<noteq> cache a))
   in (called \<longrightarrow>
         dbPasswordError \<noteq> []
         \<and> (\<exists>written v1 avatar v2 v3.
               saveToxSave E data p1 w = Return written v1
               \<and> loadAvatarData E (selfPublicKey c) p1 v1 = Some avatar
               \<and> saveAvatar E (selfPublicKey c) avatar p1 v1 = Return () v2
               \<and> resaveFriendAvatars E c (friendList c) p1 v2 = Return () v3
               \<and> setPassword E newPassword p w = Return (dbPasswordError, p1) v3))
    \<and> (called \<and> saved \<and> apart \<longrightarrow>
         (\<exists>w'. setPassword E newPassword p w = Return (dbPasswordError, p1) w'
               \<and> files w' toxPath = Some payload
               \<and> (\<forall>pk \<in> set owners.
                     avatarPath E pk False p1 = Some (cache pk)
                     \<and> (\<exists>pic. loadAvatarData E pk p1 w1 = Some pic
                           \<and> files w' (cache pk)
                               = (let stored = (if newPassword \<noteq> [] \<and> pic \<noteq> []
                                                then encrypt E k pic else pic)
                                  in if stored = []
                                     then (if canRemove E (cache pk) then None
                                           else files w1 (cache pk))
                                     else if canOpenWrite E (cache pk) \<and> commitOk E (cache pk)
                                     then Some stored
                                     else files w1 (cache pk))))
               \<and> (\<forall>q. q \<noteq> toxPath \<and> q \<notin> cache ` set owners \<longrightarrow> files w' q = files w q)))
    \<and> (\<forall>p'' w'. setPassword E newPassword p w = Return ([], p'') w'
          \<longrightarrow> (\<exists>db. database p = Some db \<and> dbSetPasswordOk E db newPassword))"
proof -
  define p1 where "p1 = (if newPassword = [] then p\<lparr>encrypted := False\<rparr>
             else p\<lparr>passkey := Some k, encrypted := True\<rparr>)"
  define toxPath where "toxPath = settingsDirPath E @ name p @ ''.tox''"
  define payload where "payload = (if newPassword = [] then toxSaveData c
                                   else encrypt E k (toxSaveData c))"
  define w1 where "w1 = QSaveFile_commit E toxPath payload w"
  define plain where "plain = (\<lambda>pk. settingsDirPath E @ ''avatars/'' @ pkToString E pk @ ''.png'')"
  define cache where "cache = (\<lambda>pk. if newPassword = [] then plain pk
                      else settingsDirPath E @ ''avatars/''
                           @ toHexUpper (crypto_generichash E tox_public_key_size
                                           (pkToString E pk) (selfPublicKey c))
                           @ ''.png'')"
  define owners where "owners = selfPublicKey c # map (friendPublicKey c) (friendList c)"
  define called where "called = (core p = Some c \<and> toxSaveData c \<noteq> [] \<and> \<not> isRemoved p
                 \<and> curLockName w = Some (name p) \<and> database p = None
                 \<and> (newPassword \<noteq> [] \<longrightarrow> makeToxEncrypt E newPassword = Some k))"
  have e1: "encrypted p1 = (newPassword \<noteq> [])" by (simp add: p1_def)
  have pp: "\<forall>pk. avatarPath E pk True p1 = Some (plain pk)"
    by (simp add: avatarPath_plain(1) plain_def)
  have hp: "\<forall>pk. avatarPath E pk False p1 = Some (cache pk)" if "core p = Some c"
  proof
    fix pk
    have c1: "core p1 = Some c" using that by (simp add: p1_def)
    show "avatarPath E pk False p1 = Some (cache pk)"
    proof (cases "newPassword = []")
      case True
      then show ?thesis by (simp add: avatarPath_plain(2) e1 cache_def plain_def)
    next
      case False
      then have "encrypted p1" by (simp add: e1)
      from avatarPath_hashed [OF this c1] False show ?thesis by (simp add: cache_def)
    qed
  qed
  have first: "dbPasswordError \<noteq> []
         \<and> (\<exists>written v1 avatar v2 v3.
               saveToxSave E (toxSaveData c) p1 w = Return written v1
               \<and> loadAvatarData E (selfPublicKey c) p1 v1 = Some avatar
               \<and> saveAvatar E (selfPublicKey c) avatar p1 v1 = Return () v2
               \<and> resaveFriendAvatars E c (friendList c) p1 v2 = Return () v3
               \<and> setPassword E newPassword p w = Return (dbPasswordError, p1) v3)" if called
  proof -
    from that have h: "core p = Some c" "toxSaveData c \<noteq> []" "\<not> isRemoved p"
      "curLockName w = Some (name p)"
      "newPassword \<noteq> [] \<longrightarrow> makeToxEncrypt E newPassword = Some k"
      and nodb: "database p = None"
      by (simp_all add: called_def)
    have "dbPasswordError \<noteq> []" by (simp add: dbPasswordError_def)
    then show ?thesis using setPassword_steps [OF h p1_def] nodb by simp
  qed
  have second: "\<exists>w'. setPassword E newPassword p w = Return (dbPasswordError, p1) w'
               \<and> files w' toxPath = Some payload
               \<and> (\<forall>pk \<in> set owners.
                     avatarPath E pk False p1 = Some (cache pk)
                     \<and> (\<exists>pic. loadAvatarData E pk p1 w1 = Some pic
                           \<and> files w' (cache pk)
                               = (let stored = (if newPassword \<noteq> [] \<and> pic \<noteq> []
                                                then encrypt E k pic else pic)
                                  in if stored = []
                                     then (if canRemove E (cache pk) then None
                                           else files w1 (cache pk))
                                     else if canOpenWrite E (cache pk) \<and> commitOk E (cache pk)
                                     then Some stored
                                     else files w1 (cache pk))))
               \<and> (\<forall>q. q \<noteq> toxPath \<and> q \<notin> cache ` set owners \<longrightarrow> files w' q = files w q)"
    if called
      and saved: "canOpenWrite E toxPath \<and> flushOk E toxPath \<and> commitOk E toxPath
                \<and> payload \<noteq> []"
      and apart: "distinct (map cache owners)
                \<and> (\<forall>a \<in> set owners. \<forall>b \<in> set owners. a \<noteq> b \<longrightarrow> plain b \<noteq> cache a)"
  proof -
    from that(1) have h: "core p = Some c" "toxSaveData c \<noteq> []" "\<not> isRemoved p"
      "curLockName w = Some (name p)" "database p = None"
      "newPassword \<noteq> [] \<longrightarrow> makeToxEncrypt E newPassword = Some k"
      by (simp_all add: called_def)
    from saved have ok: "canOpenWrite E toxPath" "flushOk E toxPath" "commitOk E toxPath"
      "payload \<noteq> []" by simp_all
    from apart have dist: "distinct (map cache owners)"
      and sep: "\<forall>a \<in> set owners. \<forall>b \<in> set owners. a \<noteq> b \<longrightarrow> plain b \<noteq> cache a"
      by simp_all
    note main = setPassword_files [OF h p1_def toxPath_def payload_def ok w1_def owners_def
        hp [OF h(1)] pp dist sep]
    then obtain w' where res: "setPassword E newPassword p w = Return (dbPasswordError, p1) w'"
      and tox: "files w' toxPath = Some payload"
      and content: "\<forall>pk \<in> set owners. \<exists>pic.
                 loadAvatarData E pk p1 w1 = Some pic
                 \<and> files w' (cache pk)
                     = (let stored = (if encrypted p1 \<and> pic \<noteq> [] then encrypt E k pic else pic)
                        in if stored = [] then (if canRemove E (cache pk) then None
                                                 else files w1 (cache pk))
                           else if canOpenWrite E (cache pk) \<and> commitOk E (cache pk)
                           then Some stored
                           else files w1 (cache pk))"
      and frame: "\<forall>q. q \<noteq> toxPath \<and> q \<notin> cache ` set owners \<longrightarrow> files w' q = files w q"
      by blast
    have paths: "\<forall>pk \<in> set owners. avatarPath E pk False p1 = Some (cache pk)"
      using hp [OF h(1)] by simp
    have both: "\<forall>pk \<in> set owners.
                     avatarPath E pk False p1 = Some (cache pk)
                     \<and> (\<exists>pic. loadAvatarData E pk p1 w1 = Some pic
                           \<and> files w' (cache pk)
                               = (let stored = (if newPassword \<noteq> [] \<and> pic \<noteq> []
                                                then encrypt E k pic else pic)
                                  in if stored = []
                                     then (if canRemove E (cache pk) then None
                                           else files w1 (cache pk))
                                     else if canOpenWrite E (cache pk) \<and> commitOk E (cache pk)
                                     then Some stored
                                     else files w1 (cache pk)))"
      using paths content [unfolded e1] by (intro ballI conjI) (erule (1) bspec)+
    show ?thesis
      by (intro exI [of _ w'] conjI res tox both frame)
  qed
  have third: "\<forall>p'' w'. setPassword E newPassword p w = Return ([], p'') w'
          \<longrightarrow> (\<exists>db. database p = Some db \<and> dbSetPasswordOk E db newPassword)"
    using setPassword_empty_return by blast
  note A = impI [OF first]
  have B: "called \<and> (canOpenWrite E toxPath \<and> flushOk E toxPath \<and> commitOk E toxPath
                \<and> payload \<noteq> [])
          \<and> (distinct (map cache owners)
                \<and> (\<forall>a \<in> set owners. \<forall>b \<in> set owners. a \<noteq> b \<longrightarrow> plain b \<noteq> cache a)) \<longrightarrow>
         (\<exists>w'. setPassword E newPassword p w = Return (dbPasswordError, p1) w'
               \<and> files w' toxPath = Some payload
               \<and> (\<forall>pk \<in> set owners.
                     avatarPath E pk False p1 = Some (cache pk)
                     \<and> (\<exists>pic. loadAvatarData E pk p1 w1 = Some pic
                           \<and> files w' (cache pk)
                               = (let stored = (if newPassword \<noteq> [] \<and> pic \<noteq> []
                                                then encrypt E k pic else pic)
                                  in if stored = []
                                     then (if canRemove E (cache pk) then None
                                           else files w1 (cache pk))
                                     else if canOpenWrite E (cache pk) \<and> commitOk E (cache pk)
                                     then Some stored
                                     else files w1 (cache pk))))
               \<and> (\<forall>q. q \<noteq> toxPath \<and> q \<notin> cache ` set owners \<longrightarrow> files w' q = files w q))"
  proof (rule impI)
    assume a: "called \<and> (canOpenWrite E toxPath \<and> flushOk E toxPath \<and> commitOk E toxPath
                \<and> payload \<noteq> [])
          \<and> (distinct (map cache owners)
                \<and> (\<forall>a \<in> set owners. \<forall>b \<in> set owners. a \<noteq> b \<longrightarrow> plain b \<noteq> cache a))"
    show "\<exists>w'. setPassword E newPassword p w = Return (dbPasswordError, p1) w'
               \<and> files w' toxPath = Some payload
               \<and> (\<forall>pk \<in> set owners.
                     avatarPath E pk False p1 = Some (cache pk)
                     \<and> (\<exists>pic. loadAvatarData E pk p1 w1 = Some pic
                           \<and> files w' (cache pk)
                               = (let stored = (if newPassword \<noteq> [] \<and> pic \<noteq> []
                                                then encrypt E k pic else pic)
                                  in if stored = []
                                     then (if canRemove E (cache pk) then None
                                           else files w1 (cache pk))
                                     else if canOpenWrite E (cache pk) \<and> commitOk E (cache pk)
                                     then Some stored
                                     else files w1 (cache pk))))
               \<and> (\<forall>q. q \<noteq> toxPath \<and> q \<notin> cache ` set owners \<longrightarrow> files w' q = files w q)"
      by (rule second [OF a [THEN conjunct1] a [THEN conjunct2, THEN conjunct1]
            a [THEN conjunct2, THEN conjunct2]])
  qed
  note all = conjI [OF A conjI [OF B third]]
  show ?thesis
    using all
    unfolding Let_def p1_def toxPath_def payload_def w1_def plain_def cache_def owners_def
      called_def
    by this
qed

text \<open>
  The theorem on the example: \<open>bob\<close> sets the password \<open>pw\<close>; the error is returned,
  the save file and both avatars are stored encrypted under the new key.
\<close>

theorem setPassword_without_database_reports_error_witness:
  "\<exists>w'. setPassword avatarEnv ''pw'' exampleProfile avatarWorld
           = Return (dbPasswordError,
                     exampleProfile\<lparr>passkey := Some (Key ''pw''), encrypted := True\<rparr>) w'
         \<and> files w' ''/cfg/bob.tox'' = Some ''E:pw:state''
         \<and> files w' ''/cfg/avatars/53.png'' = Some ''E:pw:me''
         \<and> files w' ''/cfg/avatars/46.png'' = Some ''E:pw:pal''"
  using setPassword_without_database_reports_error [where E = avatarEnv and p = exampleProfile
      and c = exampleCore and k = "Key ''pw''" and newPassword = "''pw''" and w = avatarWorld,
      unfolded Let_def, THEN conjunct2, THEN conjunct1]
  by (simp add: avatarEnv_def avatarWorld_def example_defs toHexUpper_def hexDigit_def
      QSaveFile_commit_def loadAvatarData_def avatarPath_def Let_def QFile_exists_def
      QFile_openReadOnly_def QFile_readAll_def tox_public_key_size_def
      crypto_generichash_BYTES_MIN_def crypto_generichash_BYTES_MAX_def
      crypto_generichash_KEYBYTES_MIN_def crypto_generichash_KEYBYTES_MAX_def)
    blast

end
